theory Spec2Isabelle
  imports Main "HOL-Library.Sublist"
begin

section \<open>wave: a Spotify now-playing poller that posts audio to Telegram\<close>

text \<open>
  The repository holds four variants of one program:
  \<^item> \<open>P\<close>, the print-only variant (\<open>main.go\<close>, first program);
  \<^item> \<open>H\<close>, the track-history variant (\<open>main.go\<close>, second program);
  \<^item> \<open>E\<close>, the message-editing variant (\<open>unnamed/part_003\<close>, first program);
  \<^item> \<open>U\<close>, the upload-flag variant (\<open>unnamed/part_003\<close>, second program).
  A function that exists in several variants under one name carries the variant's letter as a
  suffix. Go strings are byte sequences, as \<^typ>\<open>string\<close> is here.
\<close>

subsection \<open>Strings and paths\<close>

text \<open>\<open>strings.Join(elems, sep)\<close>.\<close>

fun Join :: "string list \<Rightarrow> string \<Rightarrow> string" where
  "Join [] sep = []"
| "Join [x] sep = x"
| "Join (x # y # ys) sep = x @ sep @ Join (y # ys) sep"

text \<open>
  \<open>filepath.Base(path)\<close> on Unix: the last element of the path, trailing slashes dropped;
  \<open>"."\<close> for the empty path and \<open>"/"\<close> for a path of slashes only.
\<close>

definition Base :: "string \<Rightarrow> string" where
  "Base path =
     (if path = [] then ''.''
      else
        let stripped = rev (dropWhile (\<lambda>c. c = CHR ''/'') (rev path));
            element = rev (takeWhile (\<lambda>c. c \<noteq> CHR ''/'') (rev stripped))
        in if element = [] then ''/'' else element)"

subsection \<open>Errors\<close>

datatype errno = ENOENT | EACCES

text \<open>
  A Go \<open>error\<close> value. \<open>Errorf format args\<close> is \<open>fmt.Errorf(format, args...)\<close>, also
  \<open>errors.New(format)\<close> when there are no arguments; the arguments keep the values given
  for \<open>%s\<close>, \<open>%d\<close> and \<open>%w\<close>/\<open>%v\<close>. \<open>PathError op path errno\<close> is the \<open>*fs.PathError\<close> of
  the \<open>os\<close> package, \<open>EOF\<close> is \<open>io.EOF\<close>, and \<open>LibError\<close> is any other error of
  \<open>net/http\<close>, \<open>encoding/json\<close> or \<open>os/exec\<close>. \<open>Panic\<close> is a run-time panic: the function
  does not return.
\<close>

datatype error =
    Errorf string "arg list"
  | PathError string string errno
  | EOF
  | LibError string
  | Panic string
and arg = ArgS string | ArgD int | ArgW error

text \<open>\<open>os.IsNotExist(err)\<close>; \<open>errors.Is(err, os.ErrNotExist)\<close> agrees with it on the errors of \<open>os.Open\<close>.\<close>

fun IsNotExist :: "error \<Rightarrow> bool" where
  "IsNotExist (PathError op path ENOENT) = True"
| "IsNotExist e = False"

subsection \<open>The world outside the program\<close>

text \<open>
  The parts of a multipart form: a text field, a text field holding a number printed with
  \<open>%d\<close>, and a file (field name, file name, content).
\<close>

datatype part = FormField string string | FormFieldD string int | FormFile string string string

datatype event =
    LogPrintln string
  | LogPrintf string "arg list"
  | LogError error
  | HttpDo string string
  | HttpPostForm string "part list"
  | Exec string "string list"
  | OsOpen string
  | OsStat string
  | OsCreate string
  | OsRemove string

text \<open>
  The state the program acts on: the files of the working directory (path to content), the
  paths the process may neither open nor create, and the trace of what the program has
  logged and called so far.
\<close>

record world =
  files :: "string \<rightharpoonup> string"
  noperm :: "string set"
  trace :: "event list"

definition emit :: "event \<Rightarrow> world \<Rightarrow> world" where
  "emit e w = w\<lparr>trace := trace w @ [e]\<rparr>"

text \<open>The empty path names no file: every call on it fails with \<open>ENOENT\<close>.\<close>

definition os_Open :: "string \<Rightarrow> world \<Rightarrow> (error + string) \<times> world" where
  "os_Open name w =
     (case (if name = [] then None else files w name) of
        None \<Rightarrow> (Inl (PathError ''open'' name ENOENT), emit (OsOpen name) w)
      | Some content \<Rightarrow>
          if name \<in> noperm w then (Inl (PathError ''open'' name EACCES), emit (OsOpen name) w)
          else (Inr content, emit (OsOpen name) w))"

definition os_Stat :: "string \<Rightarrow> world \<Rightarrow> error option \<times> world" where
  "os_Stat name w =
     (case (if name = [] then None else files w name) of
        None \<Rightarrow> (Some (PathError ''stat'' name ENOENT), emit (OsStat name) w)
      | Some content \<Rightarrow> (None, emit (OsStat name) w))"

text \<open>\<open>os.Create\<close> truncates the file or creates it empty.\<close>

definition os_Create :: "string \<Rightarrow> world \<Rightarrow> error option \<times> world" where
  "os_Create name w =
     (if name = [] then (Some (PathError ''open'' name ENOENT), emit (OsCreate name) w)
      else if name \<in> noperm w then (Some (PathError ''open'' name EACCES), emit (OsCreate name) w)
      else (None, emit (OsCreate name) (w\<lparr>files := (files w)(name \<mapsto> [])\<rparr>)))"

definition os_Remove :: "string \<Rightarrow> world \<Rightarrow> error option \<times> world" where
  "os_Remove name w =
     (case (if name = [] then None else files w name) of
        None \<Rightarrow> (Some (PathError ''remove'' name ENOENT), emit (OsRemove name) w)
      | Some content \<Rightarrow> (None, emit (OsRemove name) (w\<lparr>files := (files w)(name := None)\<rparr>)))"

text \<open>
  What an HTTP exchange comes to: the request could not be built (\<open>http.NewRequest\<close> failed),
  it was sent and the transport failed (\<open>client.Do\<close> failed, a timeout included), or a response
  with a status code and a body came back.
\<close>

datatype http_outcome = NewRequestError error | DoError error | Response int string

text \<open>
  What the outside answers during one poll cycle: the token endpoint, the currently-playing
  endpoint, the Telegram endpoint, and the run of \<open>yt-dlp\<close> on its arguments (the error of
  \<open>cmd.Run\<close>, and the files it wrote).
\<close>

record tick =
  tokenHTTP :: http_outcome
  playingHTTP :: http_outcome
  telegramHTTP :: http_outcome
  ytdlp :: "string list \<Rightarrow> error option \<times> (string \<rightharpoonup> string)"

text \<open>
  The trace of \<open>client.Do(req)\<close>: the request goes out unless it could not be built.
\<close>

definition client_Do :: "http_outcome \<Rightarrow> event \<Rightarrow> world \<Rightarrow> world" where
  "client_Do outcome request w =
     (case outcome of
        NewRequestError e \<Rightarrow> w
      | DoError e \<Rightarrow> emit request w
      | Response status body \<Rightarrow> emit request w)"

subsection \<open>Decoded data\<close>

record Track =
  Name :: string
  Artists :: "string list"

text \<open>The fields read from the currently-playing response: \<open>item.name\<close> and \<open>item.artists[].name\<close>.\<close>

record Song =
  Item_Name :: string
  Item_Artists :: "string list"

text \<open>The \<open>respData\<close> struct of \<open>sendOrEditAudio\<close>.\<close>

record respData =
  Ok :: bool
  Result_MessageID :: int
  Description :: string
  ErrorCode :: int

text \<open>\<open>TrackHistory\<close>, a \<open>map[string]bool\<close>; indexing a missing key gives \<open>false\<close>.\<close>

type_synonym TrackHistory = "string \<rightharpoonup> bool"

definition lookup :: "TrackHistory \<Rightarrow> string \<Rightarrow> bool" where
  "lookup history key = (case history key of None \<Rightarrow> False | Some b \<Rightarrow> b)"

text \<open>
  The calls into \<open>encoding/json\<close>, which is not part of the repository: decoding the token
  response to its \<open>access_token\<close>, decoding the currently-playing response, decoding and
  encoding the history file, decoding the Telegram response.
\<close>

record codec =
  decodeToken :: "string \<Rightarrow> error + string"
  decodeSong :: "string \<Rightarrow> error + Song"
  decodeHistory :: "string \<Rightarrow> error + TrackHistory"
  encodeHistory :: "TrackHistory \<Rightarrow> error + string"
  decodeTelegram :: "string \<Rightarrow> error + respData"

subsection \<open>Constants\<close>

definition spotifyAPIBase :: string where
  "spotifyAPIBase = ''https://api.spotify.com/v1''"

definition spotifyTokenURL :: string where
  "spotifyTokenURL = ''https://accounts.spotify.com/api/token''"

definition audioFileName :: string where
  "audioFileName = ''audio.mp3''"

definition dataFileName :: string where
  "dataFileName = ''data.json''"

definition thumbnailExtensions :: "string list" where
  "thumbnailExtensions = [''.jpg'', ''.webp'']"

text \<open>\<open>audioFile\<close> and \<open>dataFile\<close> of variant \<open>U\<close>.\<close>

definition audioFile :: string where
  "audioFile = ''audio.mp3''"

definition dataFile :: string where
  "dataFile = ''data.json''"

record TelegramClient =
  botToken :: string
  chatID :: string

text \<open>A step of a cycle either ends the cycle with the cycle's result or hands on a value.\<close>

datatype 'a stage = Return "error option" | Proceed 'a

section \<open>Variants \<open>H\<close> and \<open>E\<close>: the Spotify client\<close>

text \<open>
  \<open>SpotifyClient.getAccessToken\<close>. The credentials of the client go into the request; what
  comes back is what the tick supplies.
\<close>

definition getAccessToken :: "codec \<Rightarrow> tick \<Rightarrow> world \<Rightarrow> (error + string) \<times> world" where
  "getAccessToken cd tk w =
     (case tokenHTTP tk of
        NewRequestError e \<Rightarrow> Inl (Errorf ''error creating request: %w'' [ArgW e])
      | DoError e \<Rightarrow> Inl (Errorf ''error sending request: %w'' [ArgW e])
      | Response status body \<Rightarrow>
          if status \<noteq> 200
          then Inl (Errorf ''unexpected status code %d: %s'' [ArgD status, ArgS body])
          else
            (case decodeToken cd body of
               Inl e \<Rightarrow> Inl (Errorf ''error decoding response: %w'' [ArgW e])
             | Inr token \<Rightarrow> Inr token),
      client_Do (tokenHTTP tk) (HttpDo ''POST'' spotifyTokenURL) w)"

text \<open>\<open>SpotifyClient.getCurrentTrack\<close>: \<open>Inr None\<close> is the result \<open>nil, nil\<close>.\<close>

definition getCurrentTrack :: "codec \<Rightarrow> tick \<Rightarrow> world \<Rightarrow> (error + Track option) \<times> world" where
  "getCurrentTrack cd tk w =
     (case getAccessToken cd tk w of
        (Inl e, w1) \<Rightarrow> (Inl (Errorf ''error getting access token: %w'' [ArgW e]), w1)
      | (Inr token, w1) \<Rightarrow>
          (case playingHTTP tk of
             NewRequestError e \<Rightarrow> Inl (Errorf ''error creating request: %w'' [ArgW e])
           | DoError e \<Rightarrow> Inl (Errorf ''error sending request: %w'' [ArgW e])
           | Response status body \<Rightarrow>
               if status = 204 then Inr None
               else if status \<noteq> 200
               then Inl (Errorf ''unexpected status code %d: %s'' [ArgD status, ArgS body])
               else
                 (case decodeSong cd body of
                    Inl e \<Rightarrow> Inl (Errorf ''error decoding response: %w'' [ArgW e])
                  | Inr response \<Rightarrow>
                      Inr (Some \<lparr>Name = Item_Name response,
                                 Artists = map (\<lambda>artist. artist) (Item_Artists response)\<rparr>)),
           client_Do (playingHTTP tk)
             (HttpDo ''GET'' (spotifyAPIBase @ ''/me/player/currently-playing'')) w1))"

text \<open>
  The key of a track, \<open>fmt.Sprintf("%s - %s", track.Name, strings.Join(track.Artists, ", "))\<close>
  in \<open>processCurrentTrack\<close>.
\<close>

definition trackKey :: "Track \<Rightarrow> string" where
  "trackKey track = Name track @ '' - '' @ Join (Artists track) '', ''"

text \<open>
  The block \<open>if thumbnail != "" { ... }\<close> of \<open>sendAudio\<close> and \<open>sendOrEditAudio\<close>: the
  thumbnail part of the form, if any, or the error of \<open>os.Open\<close>.
\<close>

definition thumbnailPart :: "string \<Rightarrow> world \<Rightarrow> (error + part list) \<times> world" where
  "thumbnailPart thumbnail w =
     (if thumbnail \<noteq> []
      then (case os_Open thumbnail w of
              (Inl e, w1) \<Rightarrow> (Inl e, w1)
            | (Inr thumb, w1) \<Rightarrow> (Inr [FormFile ''thumbnail'' (Base thumbnail) thumb], w1))
      else (Inr [], w))"

section \<open>Variant \<open>H\<close>: track history\<close>

text \<open>\<open>fmt.Sprintf(telegramAPIBase, t.botToken)\<close> with the \<open>telegramAPIBase\<close> of variant \<open>H\<close>.\<close>

definition telegramAPIBase_H :: "string \<Rightarrow> string" where
  "telegramAPIBase_H token = ''https://api.telegram.org/bot'' @ token @ ''/sendAudio''"

text \<open>
  \<open>TelegramClient.sendAudio\<close>. The multipart body is written to a buffer in memory, so
  \<open>CreateFormFile\<close>, \<open>io.Copy\<close> and \<open>writer.Close\<close> do not fail.
\<close>

definition sendAudio_H ::
  "TelegramClient \<Rightarrow> tick \<Rightarrow> string \<Rightarrow> string \<Rightarrow> string \<Rightarrow> string \<Rightarrow> world
     \<Rightarrow> error option \<times> world" where
  "sendAudio_H t tk filePath title performer thumbnail w =
     (case os_Open filePath w of
        (Inl e, w1) \<Rightarrow> (Some (Errorf ''error opening audio file: %w'' [ArgW e]), w1)
      | (Inr audio, w1) \<Rightarrow>
          (case thumbnailPart thumbnail w1 of
             (Inl e, w2) \<Rightarrow> (Some (Errorf ''error opening thumbnail file: %w'' [ArgW e]), w2)
           | (Inr thumbPart, w2) \<Rightarrow>
               (case telegramHTTP tk of
                  NewRequestError e \<Rightarrow> Some (Errorf ''error creating request: %w'' [ArgW e])
                | DoError e \<Rightarrow> Some (Errorf ''error sending request: %w'' [ArgW e])
                | Response status respBody \<Rightarrow>
                    if status \<noteq> 200
                    then Some (Errorf ''unexpected status code %d: %s''
                                 [ArgD status, ArgS respBody])
                    else None,
                client_Do (telegramHTTP tk)
                  (HttpPostForm (telegramAPIBase_H (botToken t))
                     ([FormFile ''audio'' (Base filePath) audio] @ thumbPart @
                      [FormField ''chat_id'' (chatID t), FormField ''title'' title,
                       FormField ''performer'' performer])) w2)))"

text \<open>\<open>downloadFromYouTube\<close>: the files \<open>yt-dlp\<close> wrote are laid over the working directory.\<close>

definition downloadFromYouTube_H :: "tick \<Rightarrow> Track \<Rightarrow> world \<Rightarrow> error option \<times> world" where
  "downloadFromYouTube_H tk track w =
     (let query = Name track @ '' '' @ Join (Artists track) '' '';
          args = [''-x'', ''--audio-format'', ''mp3'', ''--write-thumbnail'', ''-o'',
                  audioFileName, ''ytsearch1:'' @ query]
      in (fst (ytdlp tk args),
          emit (Exec ''yt-dlp'' args) (w\<lparr>files := files w ++ snd (ytdlp tk args)\<rparr>)))"

text \<open>The loop of \<open>getThumbnail\<close>: the first candidate that \<open>os.Stat\<close> finds.\<close>

fun firstExisting :: "string list \<Rightarrow> world \<Rightarrow> string option \<times> world" where
  "firstExisting [] w = (None, w)"
| "firstExisting (thumbnail # rest) w =
     (case os_Stat thumbnail w of
        (None, w1) \<Rightarrow> (Some thumbnail, w1)
      | (Some e, w1) \<Rightarrow> firstExisting rest w1)"

definition getThumbnail_H :: "string \<Rightarrow> world \<Rightarrow> (error + string) \<times> world" where
  "getThumbnail_H filename w =
     (case firstExisting (map (\<lambda>ext. filename @ ext) thumbnailExtensions) w of
        (Some thumbnail, w1) \<Rightarrow> (Inr thumbnail, w1)
      | (None, w1) \<Rightarrow> (Inl (Errorf ''thumbnail not found'' []), w1))"

text \<open>
  \<open>loadTrackHistory\<close>. \<open>Decode\<close> fills the map made by \<open>make(TrackHistory)\<close>; when it fails
  with \<open>io.EOF\<close> that map is returned as it is.
\<close>

definition loadTrackHistory :: "codec \<Rightarrow> string \<Rightarrow> world \<Rightarrow> (error + TrackHistory) \<times> world" where
  "loadTrackHistory cd filename w =
     (case os_Open filename w of
        (Inl e, w1) \<Rightarrow>
          if IsNotExist e then (Inr Map.empty, w1)
          else (Inl (Errorf ''error opening file: %w'' [ArgW e]), w1)
      | (Inr content, w1) \<Rightarrow>
          (case decodeHistory cd content of
             Inl e \<Rightarrow>
               if e \<noteq> EOF then (Inl (Errorf ''error decoding JSON: %w'' [ArgW e]), w1)
               else (Inr Map.empty, w1)
           | Inr decoded \<Rightarrow> (Inr (Map.empty ++ decoded), w1)))"

text \<open>\<open>saveTrackHistory\<close>: a failed \<open>Encode\<close> leaves the file as \<open>os.Create\<close> made it.\<close>

definition saveTrackHistory ::
  "codec \<Rightarrow> string \<Rightarrow> TrackHistory \<Rightarrow> world \<Rightarrow> error option \<times> world" where
  "saveTrackHistory cd filename history w =
     (case os_Create filename w of
        (Some e, w1) \<Rightarrow> (Some (Errorf ''error creating file: %w'' [ArgW e]), w1)
      | (None, w1) \<Rightarrow>
          (case encodeHistory cd history of
             Inl e \<Rightarrow> (Some (Errorf ''error encoding JSON: %w'' [ArgW e]), w1)
           | Inr encoded \<Rightarrow> (None, w1\<lparr>files := (files w1)(filename \<mapsto> encoded)\<rparr>)))"

text \<open>
  \<open>processCurrentTrack\<close>, in two parts. \<open>acquire_H\<close> is the function up to the log line
  "Uploading to Telegram": it ends the cycle or hands on the track and the thumbnail path
  (empty when none was found).
\<close>

definition acquire_H ::
  "codec \<Rightarrow> tick \<Rightarrow> TrackHistory \<Rightarrow> world \<Rightarrow> (Track \<times> string) stage \<times> world" where
  "acquire_H cd tk history w =
     (case getCurrentTrack cd tk w of
        (Inl e, w1) \<Rightarrow> (Return (Some (Errorf ''error getting current track: %w'' [ArgW e])), w1)
      | (Inr None, w1) \<Rightarrow> (Return None, emit (LogPrintln ''No track currently playing'') w1)
      | (Inr (Some track), w1) \<Rightarrow>
          if lookup history (trackKey track)
          then (Return None,
                emit (LogPrintf ''Track '%s' already processed. Skipping.'' [ArgS (trackKey track)])
                  (emit (LogPrintf ''Current track: %s'' [ArgS (trackKey track)]) w1))
          else
            (case downloadFromYouTube_H tk track
                    (emit (LogPrintf ''Downloading: %s'' [ArgS (trackKey track)])
                       (emit (LogPrintf ''Current track: %s'' [ArgS (trackKey track)]) w1)) of
               (Some e, w2) \<Rightarrow>
                 (Return (Some (Errorf ''error downloading from YouTube: %w'' [ArgW e])), w2)
             | (None, w2) \<Rightarrow>
                 (case getThumbnail_H audioFileName w2 of
                    (Inl e, w3) \<Rightarrow>
                      (Proceed (track, []),
                       emit (LogPrintf ''Uploading to Telegram: %s'' [ArgS (trackKey track)])
                         (emit (LogPrintf ''Error getting thumbnail: %v'' [ArgW e]) w3))
                  | (Inr thumbnail, w3) \<Rightarrow>
                      (Proceed (track, thumbnail),
                       emit (LogPrintf ''Uploading to Telegram: %s'' [ArgS (trackKey track)])
                         w3))))"

text \<open>
  The whole of \<open>processCurrentTrack\<close>: the error returned, the history map (the function
  writes into the caller's map) and the world.
\<close>

definition processCurrentTrack_H ::
  "codec \<Rightarrow> TelegramClient \<Rightarrow> tick \<Rightarrow> TrackHistory \<Rightarrow> world
     \<Rightarrow> error option \<times> TrackHistory \<times> world" where
  "processCurrentTrack_H cd t tk history w =
     (case acquire_H cd tk history w of
        (Return r, w1) \<Rightarrow> (r, history, w1)
      | (Proceed (track, thumbnail), w1) \<Rightarrow>
          (case sendAudio_H t tk audioFileName (Name track) (Join (Artists track) '', '')
                  thumbnail w1 of
             (Some e, w2) \<Rightarrow>
               (Some (Errorf ''error uploading to Telegram: %w'' [ArgW e]), history, w2)
           | (None, w2) \<Rightarrow>
               let history' = history(trackKey track \<mapsto> True);
                   w3 = (case saveTrackHistory cd dataFileName history' w2 of
                           (Some e, w') \<Rightarrow>
                             emit (LogPrintf ''Error saving track history: %v'' [ArgW e]) w'
                         | (None, w') \<Rightarrow> w');
                   w4 = snd (os_Remove audioFileName w3);
                   w5 = (if thumbnail \<noteq> [] then snd (os_Remove thumbnail w4) else w4)
               in (None, history', w5)))"

text \<open>
  The loop of \<open>run\<close> over the ticks of the ticker, after the history has been loaded: one
  cycle per tick, an error of the cycle is logged.
\<close>

fun run_loop_H ::
  "codec \<Rightarrow> TelegramClient \<Rightarrow> tick list \<Rightarrow> TrackHistory \<Rightarrow> world \<Rightarrow> TrackHistory \<times> world" where
  "run_loop_H cd t [] history w = (history, w)"
| "run_loop_H cd t (tk # ticks) history w =
     (case processCurrentTrack_H cd t tk history w of
        (Some err, history', w') \<Rightarrow>
          run_loop_H cd t ticks history'
            (emit (LogPrintf ''Error processing current track: %v'' [ArgW err]) w')
      | (None, history', w') \<Rightarrow> run_loop_H cd t ticks history' w')"

section \<open>Variant \<open>E\<close>: message editing\<close>

text \<open>The \<open>TelegramClient\<close> of variant \<open>E\<close> remembers the id of the message it sent.\<close>

record TelegramClient_E = TelegramClient +
  messageID :: "int option"

text \<open>\<open>fmt.Sprintf(telegramAPIBase, t.botToken, method)\<close> with the \<open>telegramAPIBase\<close> of variant \<open>E\<close>.\<close>

definition telegramAPIBase_E :: "string \<Rightarrow> string \<Rightarrow> string" where
  "telegramAPIBase_E token method = ''https://api.telegram.org/bot'' @ token @ ''/'' @ method"

text \<open>The \<open>media\<close> field of an edit.\<close>

definition media :: "string \<Rightarrow> string \<Rightarrow> string" where
  \<open>media title performer =
     ''{"type":"audio","media":"attach://audio", "thumbnail":"attach://thumbnail", "title":"''
     @ title @ ''", "performer":"'' @ performer @ ''"}''\<close>

text \<open>
  The URL and the first fields of the form in \<open>sendOrEditAudio\<close>: an edit of the remembered
  message, or a fresh send.
\<close>

definition requestHead :: "TelegramClient_E \<Rightarrow> string \<Rightarrow> string \<Rightarrow> string \<times> part list" where
  "requestHead t title performer =
     (case messageID t of
        Some mid \<Rightarrow>
          (telegramAPIBase_E (botToken t) ''editMessageMedia'',
           [FormField ''chat_id'' (chatID t), FormFieldD ''message_id'' mid,
            FormField ''media'' (media title performer)])
      | None \<Rightarrow>
          (telegramAPIBase_E (botToken t) ''sendAudio'',
           [FormField ''chat_id'' (chatID t), FormField ''title'' title,
            FormField ''performer'' performer]))"

text \<open>
  \<open>TelegramClient.sendOrEditAudio\<close>: the error returned, the client (the method sets
  \<open>t.messageID\<close>) and the world.
\<close>

definition sendOrEditAudio ::
  "codec \<Rightarrow> TelegramClient_E \<Rightarrow> tick \<Rightarrow> string \<Rightarrow> string \<Rightarrow> string \<Rightarrow> string \<Rightarrow> world
     \<Rightarrow> error option \<times> TelegramClient_E \<times> world" where
  "sendOrEditAudio cd t tk filePath title performer thumbnail w =
     (case os_Open filePath w of
        (Inl e, w1) \<Rightarrow> (Some (Errorf ''error opening audio file: %w'' [ArgW e]), t, w1)
      | (Inr audio, w1) \<Rightarrow>
          (case thumbnailPart thumbnail w1 of
             (Inl e, w2) \<Rightarrow>
               (Some (Errorf ''error opening thumbnail file: %w'' [ArgW e]), t, w2)
           | (Inr thumbPart, w2) \<Rightarrow>
               (case (case telegramHTTP tk of
                        NewRequestError e \<Rightarrow>
                          (Some (Errorf ''error creating request: %w'' [ArgW e]), t)
                      | DoError e \<Rightarrow> (Some (Errorf ''error sending request: %w'' [ArgW e]), t)
                      | Response status respBody \<Rightarrow>
                          if status \<noteq> 200
                          then (Some (Errorf ''unexpected status code %d: %s''
                                        [ArgD status, ArgS respBody]), t)
                          else
                            (case decodeTelegram cd respBody of
                               Inl e \<Rightarrow>
                                 (Some (Errorf ''failed to decode message_id: %w'' [ArgW e]), t)
                             | Inr respData \<Rightarrow>
                                 if \<not> Ok respData
                                 then (Some (Errorf ''request failed: %s (error code: %d)''
                                               [ArgS (Description respData),
                                                ArgD (ErrorCode respData)]), t)
                                 else (None,
                                       t\<lparr>messageID := Some (Result_MessageID respData)\<rparr>))) of
                  (err, t') \<Rightarrow>
                    (err, t',
                     client_Do (telegramHTTP tk)
                       (HttpPostForm (fst (requestHead t title performer))
                          (snd (requestHead t title performer) @
                           [FormFile ''audio'' (Base filePath) audio] @ thumbPart)) w2))))"

definition downloadFromYouTube_E :: "tick \<Rightarrow> Track \<Rightarrow> world \<Rightarrow> error option \<times> world" where
  "downloadFromYouTube_E tk track w =
     (let query = Name track @ '' '' @ Join (Artists track) '' '';
          args = [''-x'', ''--audio-format'', ''mp3'', ''--write-thumbnail'',
                  ''--convert-thumbnails'', ''jpg'', ''-o'', audioFileName,
                  ''ytsearch1:'' @ query]
      in (fst (ytdlp tk args),
          emit (Exec ''yt-dlp'' args) (w\<lparr>files := files w ++ snd (ytdlp tk args)\<rparr>)))"

definition getThumbnail_E :: "string \<Rightarrow> world \<Rightarrow> (error + string) \<times> world" where
  "getThumbnail_E filename w =
     (case os_Stat (filename @ ''.jpg'') w of
        (None, w1) \<Rightarrow> (Inr (filename @ ''.jpg''), w1)
      | (Some e, w1) \<Rightarrow> (Inl (Errorf ''thumbnail not found'' []), w1))"

text \<open>\<open>processCurrentTrack\<close> up to the log line "Uploading to Telegram".\<close>

definition acquire_E :: "codec \<Rightarrow> tick \<Rightarrow> world \<Rightarrow> (Track \<times> string) stage \<times> world" where
  "acquire_E cd tk w =
     (case getCurrentTrack cd tk w of
        (Inl e, w1) \<Rightarrow> (Return (Some (Errorf ''error getting current track: %w'' [ArgW e])), w1)
      | (Inr None, w1) \<Rightarrow> (Return None, emit (LogPrintln ''No track currently playing'') w1)
      | (Inr (Some track), w1) \<Rightarrow>
          (case downloadFromYouTube_E tk track
                  (emit (LogPrintf ''Downloading: %s'' [ArgS (trackKey track)])
                     (emit (LogPrintf ''Current track: %s'' [ArgS (trackKey track)]) w1)) of
             (Some e, w2) \<Rightarrow>
               (Return (Some (Errorf ''error downloading from youtube: %w'' [ArgW e])), w2)
           | (None, w2) \<Rightarrow>
               (case getThumbnail_E audioFileName w2 of
                  (Inl e, w3) \<Rightarrow>
                    (Proceed (track, []),
                     emit (LogPrintf ''Uploading to Telegram: %s'' [ArgS (trackKey track)])
                       (emit (LogPrintf ''Error getting thumbnail: %v'' [ArgW e]) w3))
                | (Inr thumbnail, w3) \<Rightarrow>
                    (Proceed (track, thumbnail),
                     emit (LogPrintf ''Uploading to Telegram: %s'' [ArgS (trackKey track)])
                       w3))))"


section \<open>Variant \<open>U\<close>: the upload flag\<close>

definition getAccessToken_U :: "codec \<Rightarrow> tick \<Rightarrow> world \<Rightarrow> (error + string) \<times> world" where
  "getAccessToken_U cd tk w =
     (case tokenHTTP tk of
        NewRequestError e \<Rightarrow> Inl e
      | DoError e \<Rightarrow> Inl e
      | Response status body \<Rightarrow>
          if status \<noteq> 200
          then Inl (Errorf ''get access token request failed with status code %d: %s''
                      [ArgD status, ArgS body])
          else
            (case decodeToken cd body of
               Inl e \<Rightarrow> Inl e
             | Inr token \<Rightarrow> Inr token),
      client_Do (tokenHTTP tk) (HttpDo ''POST'' ''https://accounts.spotify.com/api/token'') w)"

text \<open>\<open>getCurrentPlaying\<close>: \<open>Inl\<close> is the result \<open>Song{}, err\<close>.\<close>

definition getCurrentPlaying_U :: "codec \<Rightarrow> tick \<Rightarrow> world \<Rightarrow> (error + Song) \<times> world" where
  "getCurrentPlaying_U cd tk w =
     (case getAccessToken_U cd tk w of
        (Inl e, w1) \<Rightarrow> (Inl (Errorf ''failed to get access token: %w'' [ArgW e]), w1)
      | (Inr accessToken, w1) \<Rightarrow>
          (case playingHTTP tk of
             NewRequestError e \<Rightarrow> Inl e
           | DoError e \<Rightarrow> Inl (Errorf ''failed to get current playing: %w'' [ArgW e])
           | Response status body \<Rightarrow>
               if status = 204 then Inl (Errorf ''not listening to music'' [])
               else if status \<noteq> 200
               then Inl (Errorf ''get current playing request failed with status code %d: %s''
                           [ArgD status, ArgS body])
               else
                 (case decodeSong cd body of
                    Inl e \<Rightarrow> Inl (Errorf ''failed to unmarshal response body: %w'' [ArgW e])
                  | Inr song \<Rightarrow> Inr song),
           client_Do (playingHTTP tk)
             (HttpDo ''GET'' ''https://api.spotify.com/v1/me/player/currently-playing'') w1))"

definition getArtists :: "string list \<Rightarrow> string" where
  "getArtists artists = Join (map (\<lambda>artist. artist) artists) '' ''"

text \<open>\<open>songKey\<close> of \<open>processCurrentPlayingSong\<close>.\<close>

definition songKey :: "Song \<Rightarrow> string" where
  "songKey song = Item_Name song @ '' - '' @ getArtists (Item_Artists song)"

definition loadData :: "codec \<Rightarrow> string \<Rightarrow> world \<Rightarrow> (error + TrackHistory) \<times> world" where
  "loadData cd filename w =
     (case os_Open filename w of
        (Inl e, w1) \<Rightarrow> if IsNotExist e then (Inr Map.empty, w1) else (Inl e, w1)
      | (Inr content, w1) \<Rightarrow>
          (case decodeHistory cd content of
             Inl e \<Rightarrow> if e \<noteq> EOF then (Inl e, w1) else (Inr Map.empty, w1)
           | Inr decoded \<Rightarrow> (Inr (Map.empty ++ decoded), w1)))"

definition saveData :: "codec \<Rightarrow> string \<Rightarrow> TrackHistory \<Rightarrow> world \<Rightarrow> error option \<times> world" where
  "saveData cd filename data w =
     (case os_Create filename w of
        (Some e, w1) \<Rightarrow> (Some e, w1)
      | (None, w1) \<Rightarrow>
          (case encodeHistory cd data of
             Inl e \<Rightarrow> (Some e, w1)
           | Inr encoded \<Rightarrow> (None, w1\<lparr>files := (files w1)(filename \<mapsto> encoded)\<rparr>)))"

definition downloadFromYouTube_U :: "tick \<Rightarrow> string \<Rightarrow> string \<Rightarrow> world \<Rightarrow> error option \<times> world" where
  "downloadFromYouTube_U tk song artists w =
     (let args = [''-x'', ''--audio-format'', ''mp3'', ''--write-thumbnail'', ''-o'', audioFile,
                  ''ytsearch1:'' @ song @ '' '' @ artists]
      in (fst (ytdlp tk args),
          emit (Exec ''yt-dlp'' args) (w\<lparr>files := files w ++ snd (ytdlp tk args)\<rparr>)))"

definition getThumbnail_U :: "string \<Rightarrow> world \<Rightarrow> (error + string) \<times> world" where
  "getThumbnail_U filename w =
     (case firstExisting [filename @ ''.jpg'', filename @ ''.webp''] w of
        (Some thumbnail, w1) \<Rightarrow> (Inr thumbnail, w1)
      | (None, w1) \<Rightarrow> (Inl (Errorf ''thumbnail not found'' []), w1))"

text \<open>\<open>addFileToWriter\<close>: the part added to the form, named by the whole path.\<close>

definition addFileToWriter :: "string \<Rightarrow> string \<Rightarrow> world \<Rightarrow> (error + part) \<times> world" where
  "addFileToWriter fieldName filePath w =
     (case os_Open filePath w of
        (Inl e, w1) \<Rightarrow> (Inl e, w1)
      | (Inr content, w1) \<Rightarrow> (Inr (FormFile fieldName filePath content), w1))"

text \<open>The block \<open>if thumbnail != "" { ... }\<close> of \<open>sendAudio\<close> in variant \<open>U\<close>.\<close>

definition thumbnailPart_U :: "string \<Rightarrow> world \<Rightarrow> (error + part list) \<times> world" where
  "thumbnailPart_U thumbnail w =
     (if thumbnail \<noteq> []
      then (case addFileToWriter ''thumbnail'' thumbnail w of
              (Inl e, w1) \<Rightarrow> (Inl e, w1)
            | (Inr thumbPart, w1) \<Rightarrow> (Inr [thumbPart], w1))
      else (Inr [], w))"

text \<open>
  The end of \<open>sendAudio\<close> in variant \<open>U\<close>: the two calls of \<open>os.Remove\<close>, the first error
  returned.
\<close>

definition removeUploaded :: "string \<Rightarrow> string \<Rightarrow> world \<Rightarrow> error option \<times> world" where
  "removeUploaded filePath thumbnail w =
     (case os_Remove filePath w of
        (Some e, w1) \<Rightarrow> (Some e, w1)
      | (None, w1) \<Rightarrow>
          (case os_Remove thumbnail w1 of
             (Some e, w2) \<Rightarrow> (Some e, w2)
           | (None, w2) \<Rightarrow> (None, w2)))"

text \<open>\<open>sendAudio\<close> of variant \<open>U\<close>, which removes the two files itself after a status 200.\<close>

definition sendAudio_U ::
  "tick \<Rightarrow> string \<Rightarrow> string \<Rightarrow> string \<Rightarrow> string \<Rightarrow> string \<Rightarrow> string \<Rightarrow> world
     \<Rightarrow> error option \<times> world" where
  "sendAudio_U tk token chat_id filePath title performer thumbnail w =
     (case addFileToWriter ''audio'' filePath w of
        (Inl e, w1) \<Rightarrow> (Some e, w1)
      | (Inr audioPart, w1) \<Rightarrow>
          (case thumbnailPart_U thumbnail w1 of
             (Inl e, w2) \<Rightarrow> (Some e, w2)
           | (Inr thumbParts, w2) \<Rightarrow>
               let w3 = client_Do (telegramHTTP tk)
                          (HttpPostForm (''https://api.telegram.org/bot'' @ token @ ''/sendAudio'')
                             ([audioPart] @ thumbParts @
                              [FormField ''chat_id'' chat_id, FormField ''title'' title,
                               FormField ''performer'' performer])) w2
               in
                 (case telegramHTTP tk of
                    NewRequestError e \<Rightarrow> (Some e, w3)
                  | DoError e \<Rightarrow> (Some e, w3)
                  | Response status respBody \<Rightarrow>
                      if status \<noteq> 200
                      then (Some (Errorf ''telegram api request failed with status %d: %s''
                                    [ArgD status, ArgS respBody]), w3)
                      else removeUploaded filePath thumbnail w3)))"

text \<open>
  \<open>processCurrentPlayingSong\<close>, in two parts. \<open>acquire_U\<close> is the function up to the log line
  "Uploading to Telegram": it ends the cycle or hands on the song, the joined artists, the
  loaded map and the thumbnail path (empty when none was found).
\<close>

definition acquire_U ::
  "codec \<Rightarrow> tick \<Rightarrow> string \<Rightarrow> world \<Rightarrow> (Song \<times> string \<times> TrackHistory \<times> string) stage \<times> world" where
  "acquire_U cd tk upload w =
     (case getCurrentPlaying_U cd tk w of
        (Inl e, w1) \<Rightarrow> (Return (Some e), w1)
      | (Inr song, w1) \<Rightarrow>
          if upload = ''true''
          then
            (case loadData cd dataFile (emit (LogPrintln (songKey song)) w1) of
               (Inl e, w2) \<Rightarrow> (Return (Some (Errorf ''failed to load data: %w'' [ArgW e])), w2)
             | (Inr dataMap, w2) \<Rightarrow>
                 if lookup dataMap (songKey song)
                 then (Return None,
                       emit (LogPrintf
                               ''Song '%s' already exists in the database. Skipping download.''
                               [ArgS (songKey song)]) w2)
                 else
                   (case downloadFromYouTube_U tk (Item_Name song)
                           (getArtists (Item_Artists song))
                           (emit (LogPrintf ''Downloading: %s'' [ArgS (songKey song)]) w2) of
                      (Some e, w3) \<Rightarrow>
                        (Return (Some (Errorf ''failed to download from YouTube: %w'' [ArgW e])),
                         w3)
                    | (None, w3) \<Rightarrow>
                        (case getThumbnail_U audioFile w3 of
                           (Inl e, w4) \<Rightarrow>
                             (Proceed (song, getArtists (Item_Artists song), dataMap, []),
                              emit (LogPrintf ''Uploading to Telegram: %s'' [ArgS (songKey song)])
                                (emit (LogPrintf ''failed to get thumbnail: %v'' [ArgW e]) w4))
                         | (Inr thumbnail, w4) \<Rightarrow>
                             (Proceed (song, getArtists (Item_Artists song), dataMap, thumbnail),
                              emit (LogPrintf ''Uploading to Telegram: %s'' [ArgS (songKey song)])
                                w4))))
          else (Return None, emit (LogPrintln (songKey song)) w1))"

definition processCurrentPlayingSong ::
  "codec \<Rightarrow> tick \<Rightarrow> string \<Rightarrow> string \<Rightarrow> string \<Rightarrow> world \<Rightarrow> error option \<times> world" where
  "processCurrentPlayingSong cd tk bot_token chat_id upload w =
     (case acquire_U cd tk upload w of
        (Return r, w1) \<Rightarrow> (r, w1)
      | (Proceed (song, artists, dataMap, thumbnail), w1) \<Rightarrow>
          (case sendAudio_U tk bot_token chat_id audioFile (Item_Name song) artists thumbnail w1 of
             (Some e, w2) \<Rightarrow> (Some (Errorf ''failed to upload to Telegram: %w'' [ArgW e]), w2)
           | (None, w2) \<Rightarrow>
               (case saveData cd dataFile (dataMap(songKey song \<mapsto> True)) w2 of
                  (Some e, w3) \<Rightarrow> (None, emit (LogPrintf ''failed to save data: %v'' [ArgW e]) w3)
                | (None, w3) \<Rightarrow> (None, w3))))"

text \<open>The loop of \<open>main\<close> over the ticks of the ticker: an error of the cycle is logged.\<close>

fun main_loop_U :: "codec \<Rightarrow> string \<Rightarrow> string \<Rightarrow> string \<Rightarrow> tick list \<Rightarrow> world \<Rightarrow> world" where
  "main_loop_U cd bot_token chat_id upload [] w = w"
| "main_loop_U cd bot_token chat_id upload (tk # ticks) w =
     (case processCurrentPlayingSong cd tk bot_token chat_id upload w of
        (Some err, w') \<Rightarrow> main_loop_U cd bot_token chat_id upload ticks (emit (LogError err) w')
      | (None, w') \<Rightarrow> main_loop_U cd bot_token chat_id upload ticks w')"

section \<open>Variant \<open>P\<close>: print only\<close>

text \<open>
  \<open>getAccessToken\<close> and \<open>getCurrentPlaying\<close> of variant \<open>P\<close> drop the error of
  \<open>http.NewRequest\<close>; with a \<open>nil\<close> request the next line panics.
\<close>

definition getAccessToken_P :: "codec \<Rightarrow> tick \<Rightarrow> world \<Rightarrow> (error + string) \<times> world" where
  "getAccessToken_P cd tk w =
     (case tokenHTTP tk of
        NewRequestError e \<Rightarrow> Inl (Panic ''nil pointer dereference'')
      | DoError e \<Rightarrow> Inl e
      | Response status body \<Rightarrow>
          if status \<noteq> 200
          then Inl (Errorf ''get access token request failed with status code: %d''
                      [ArgD status])
          else
            (case decodeToken cd body of
               Inl e \<Rightarrow> Inl e
             | Inr token \<Rightarrow> Inr token),
      client_Do (tokenHTTP tk) (HttpDo ''POST'' ''https://accounts.spotify.com/api/token'') w)"

definition getCurrentPlaying_P :: "codec \<Rightarrow> tick \<Rightarrow> world \<Rightarrow> (error + Song) \<times> world" where
  "getCurrentPlaying_P cd tk w =
     (case getAccessToken_P cd tk w of
        (Inl (Panic p), w1) \<Rightarrow> (Inl (Panic p), w1)
      | (Inl e, w1) \<Rightarrow> (Inl (Errorf ''failed to get access token with error: %w'' [ArgW e]), w1)
      | (Inr accessToken, w1) \<Rightarrow>
          (case playingHTTP tk of
             NewRequestError e \<Rightarrow> Inl (Panic ''nil pointer dereference'')
           | DoError e \<Rightarrow> Inl (Errorf ''failed to get current playing with error: %w'' [ArgW e])
           | Response status body \<Rightarrow>
               if status = 204 then Inl (Errorf ''not listening music'' [])
               else if status \<noteq> 200
               then Inl (Errorf ''get current playing request failed with status code: %d''
                           [ArgD status])
               else
                 (case decodeSong cd body of
                    Inl e \<Rightarrow>
                      Inl (Errorf ''failed to unmarshal response body with error: %w'' [ArgW e])
                  | Inr song \<Rightarrow> Inr song),
           client_Do (playingHTTP tk)
             (HttpDo ''GET'' ''https://api.spotify.com/v1/me/player/currently-playing'') w1))"

section \<open>Observations\<close>

text \<open>
  A string is free of a separator when no occurrence of the separator starts inside it, also
  none that runs over its end into a separator that follows.
\<close>

definition sepfree :: "string \<Rightarrow> string \<Rightarrow> bool" where
  "sepfree sep x = (\<not> sublist sep (x @ butlast sep))"

text \<open>The process may open the file for reading.\<close>

definition readable :: "world \<Rightarrow> string \<Rightarrow> bool" where
  "readable w name = (name \<noteq> [] \<and> files w name \<noteq> None \<and> name \<notin> noperm w)"

text \<open>
  The calls a trace is searched for: a run of the downloader (acquisition), a multipart POST to
  Telegram (publish), a call of \<open>os.Create\<close> (the only way the program writes a file).
\<close>

fun is_acquisition :: "event \<Rightarrow> bool" where
  "is_acquisition (Exec cmd args) = True"
| "is_acquisition e = False"

fun is_publish :: "event \<Rightarrow> bool" where
  "is_publish (HttpPostForm url body) = True"
| "is_publish e = False"

fun is_create :: "event \<Rightarrow> bool" where
  "is_create (OsCreate name) = True"
| "is_create e = False"

text \<open>
  A tick of variant \<open>U\<close> on which the song plays, the downloader succeeds and writes the
  audio file but neither a thumbnail nor the history file, and Telegram answers 200.
\<close>

definition plays_without_thumbnail :: "codec \<Rightarrow> Song \<Rightarrow> tick \<Rightarrow> bool" where
  "plays_without_thumbnail cd song tk =
     ((case tokenHTTP tk of
         Response status body \<Rightarrow> status = 200 \<and> \<not> isl (decodeToken cd body)
       | _ \<Rightarrow> False) \<and>
      (case playingHTTP tk of
         Response status body \<Rightarrow> status = 200 \<and> decodeSong cd body = Inr song
       | _ \<Rightarrow> False) \<and>
      (case telegramHTTP tk of
         Response status body \<Rightarrow> status = 200
       | _ \<Rightarrow> False) \<and>
      (case ytdlp tk [''-x'', ''--audio-format'', ''mp3'', ''--write-thumbnail'', ''-o'',
                      audioFile,
                      ''ytsearch1:'' @ Item_Name song @ '' '' @ getArtists (Item_Artists song)] of
         (err, written) \<Rightarrow>
           err = None \<and> written audioFile \<noteq> None \<and> written (audioFile @ ''.jpg'') = None \<and>
           written (audioFile @ ''.webp'') = None \<and> written dataFile = None))"

section \<open>Concrete inputs\<close>

text \<open>The documents of the examples.\<close>

definition token_body :: string where
  \<open>token_body = ''{"access_token":"t0"}''\<close>

definition playing_body :: string where
  \<open>playing_body = ''{"item":{"name":"Song A","artists":[{"name":"Artist X"}]}}''\<close>

definition sent_body :: string where
  \<open>sent_body = ''{"ok":true,"result":{"message_id":7}}''\<close>

definition notok_body :: string where
  \<open>notok_body = ''{"ok":false,"error_code":400,"description":"Bad Request"}''\<close>

definition history_doc :: string where
  \<open>history_doc = ''{"Song A - Artist X":true}''\<close>

text \<open>
  A small stand-in for \<open>encoding/json\<close> that knows the documents of the examples and rejects
  every other one; a history file with no content ends the input before any value.
\<close>

definition codec0 :: codec where
  "codec0 =
     \<lparr>decodeToken = (\<lambda>body.
        if body = token_body then Inr ''t0'' else Inl (LibError ''invalid character'')),
      decodeSong = (\<lambda>body.
        if body = playing_body
        then Inr \<lparr>Item_Name = ''Song A'', Item_Artists = [''Artist X'']\<rparr>
        else Inl (LibError ''invalid character'')),
      decodeHistory = (\<lambda>content.
        if content = [] then Inl EOF
        else if content = ''{}'' then Inr Map.empty
        else if content = history_doc then Inr [''Song A - Artist X'' \<mapsto> True]
        else Inl (LibError ''invalid character'')),
      encodeHistory = (\<lambda>history.
        if lookup history ''Song A - Artist X'' then Inr history_doc else Inr ''{}''),
      decodeTelegram = (\<lambda>body.
        if body = sent_body
        then Inr \<lparr>Ok = True, Result_MessageID = 7, Description = [], ErrorCode = 0\<rparr>
        else if body = notok_body
        then Inr \<lparr>Ok = False, Result_MessageID = 0, Description = ''Bad Request'',
                  ErrorCode = 400\<rparr>
        else Inl (LibError ''invalid character''))\<rparr>"

text \<open>
  A tick on which "Song A" by "Artist X" plays, the downloader writes the audio file and a
  thumbnail, and Telegram accepts the upload.
\<close>

definition tick_ok :: tick where
  "tick_ok =
     \<lparr>tokenHTTP = Response 200 token_body,
      playingHTTP = Response 200 playing_body,
      telegramHTTP = Response 200 sent_body,
      ytdlp = (\<lambda>args. (None, [''audio.mp3'' \<mapsto> ''ID3'', ''audio.mp3.jpg'' \<mapsto> ''JFIF'']))\<rparr>"

text \<open>The same tick with Telegram answering 502.\<close>

definition tick_fail :: tick where
  "tick_fail = tick_ok\<lparr>telegramHTTP := Response 502 ''Bad Gateway''\<rparr>"

text \<open>The same tick with Telegram answering 200 and a body that says \<open>"ok":false\<close>.\<close>

definition tick_notok :: tick where
  "tick_notok = tick_ok\<lparr>telegramHTTP := Response 200 notok_body\<rparr>"

text \<open>The same tick with a downloader that writes no thumbnail.\<close>

definition tick_nothumb :: tick where
  "tick_nothumb = tick_ok\<lparr>ytdlp := (\<lambda>args. (None, [''audio.mp3'' \<mapsto> ''ID3'']))\<rparr>"

text \<open>The same tick with Spotify answering 429 to the currently-playing request.\<close>

definition tick_429 :: tick where
  "tick_429 = tick_ok\<lparr>playingHTTP := Response 429 ''slow down''\<rparr>"

text \<open>A tick on which nothing plays.\<close>

definition tick_204 :: tick where
  "tick_204 = tick_ok\<lparr>playingHTTP := Response 204 []\<rparr>"

text \<open>An empty working directory; one where the history file may not be written.\<close>

definition world0 :: world where
  "world0 = \<lparr>files = Map.empty, noperm = {}, trace = []\<rparr>"

definition world_ro :: world where
  "world_ro = \<lparr>files = Map.empty, noperm = {''data.json''}, trace = []\<rparr>"

text \<open>A working directory holding a downloaded audio file.\<close>

definition world_audio :: world where
  "world_audio = \<lparr>files = [''audio.mp3'' \<mapsto> ''ID3''], noperm = {}, trace = []\<rparr>"

text \<open>A working directory holding the history file of the example.\<close>

definition world_hist :: world where
  "world_hist = \<lparr>files = [''data.json'' \<mapsto> history_doc], noperm = {}, trace = []\<rparr>"

definition client0 :: TelegramClient where
  "client0 = \<lparr>botToken = ''123:abc'', chatID = ''42''\<rparr>"

definition client0_E :: TelegramClient_E where
  "client0_E = \<lparr>botToken = ''123:abc'', chatID = ''42'', messageID = None\<rparr>"

definition track0 :: Track where
  "track0 = \<lparr>Name = ''Song A'', Artists = [''Artist X'']\<rparr>"

definition song0 :: Song where
  "song0 = \<lparr>Item_Name = ''Song A'', Item_Artists = [''Artist X'']\<rparr>"

section \<open>Frame lemmas: what each call leaves alone\<close>

lemma files_emit [simp]: "files (emit e w) = files w"
  by (simp add: emit_def)

lemma noperm_emit [simp]: "noperm (emit e w) = noperm w"
  by (simp add: emit_def)

lemma trace_emit [simp]: "trace (emit e w) = trace w @ [e]"
  by (simp add: emit_def)

lemma os_Open_snd [simp]: "snd (os_Open name w) = emit (OsOpen name) w"
  by (simp add: os_Open_def split: option.splits)

lemma readable_emit [simp]: "readable (emit e w) name = readable w name"
  by (simp add: readable_def)

lemma os_Open_readable:
  "readable w name \<Longrightarrow> fst (os_Open name w) = Inr (the (files w name))"
  by (auto simp: os_Open_def readable_def)

lemma os_Stat_snd [simp]: "snd (os_Stat name w) = emit (OsStat name) w"
  by (simp add: os_Stat_def split: option.splits)

lemma os_Create_noperm [simp]: "noperm (snd (os_Create name w)) = noperm w"
  by (simp add: os_Create_def)

lemma os_Create_trace [simp]: "trace (snd (os_Create name w)) = trace w @ [OsCreate name]"
  by (simp add: os_Create_def)


lemma os_Remove_noperm [simp]: "noperm (snd (os_Remove name w)) = noperm w"
  by (simp add: os_Remove_def split: option.splits)

lemma os_Remove_trace [simp]: "trace (snd (os_Remove name w)) = trace w @ [OsRemove name]"
  by (simp add: os_Remove_def split: option.splits)

lemma os_Remove_files_same:
  "name \<noteq> [] \<Longrightarrow> files (snd (os_Remove name w)) name = None"
  by (simp add: os_Remove_def split: option.splits)

lemma os_Remove_files_other:
  "p \<noteq> name \<Longrightarrow> files (snd (os_Remove name w)) p = files w p"
  by (simp add: os_Remove_def split: option.splits)

lemma os_Remove_files_None:
  "files w p = None \<Longrightarrow> files (snd (os_Remove name w)) p = None"
  by (simp add: os_Remove_def split: option.splits)

lemma os_Remove_empty: "fst (os_Remove [] w) = Some (PathError ''remove'' [] ENOENT)"
  by (simp add: os_Remove_def)

lemma files_client_Do [simp]: "files (client_Do outcome request w) = files w"
  by (simp add: client_Do_def split: http_outcome.splits)

lemma noperm_client_Do [simp]: "noperm (client_Do outcome request w) = noperm w"
  by (simp add: client_Do_def split: http_outcome.splits)

lemma filter_client_Do [simp]:
  "\<not> P request \<Longrightarrow> filter P (trace (client_Do outcome request w)) = filter P (trace w)"
  by (simp add: client_Do_def split: http_outcome.splits)

lemma getAccessToken_snd [simp]:
  "snd (getAccessToken cd tk w) = client_Do (tokenHTTP tk) (HttpDo ''POST'' spotifyTokenURL) w"
  by (simp add: getAccessToken_def)

lemma getCurrentTrack_snd:
  "snd (getCurrentTrack cd tk w) =
     (case fst (getAccessToken cd tk w) of
        Inl e \<Rightarrow> client_Do (tokenHTTP tk) (HttpDo ''POST'' spotifyTokenURL) w
      | Inr token \<Rightarrow>
          client_Do (playingHTTP tk)
            (HttpDo ''GET'' (spotifyAPIBase @ ''/me/player/currently-playing''))
            (client_Do (tokenHTTP tk) (HttpDo ''POST'' spotifyTokenURL) w))"
  by (simp add: getCurrentTrack_def split_beta split: sum.splits)

lemma getCurrentTrack_files [simp]: "files (snd (getCurrentTrack cd tk w)) = files w"
  by (simp add: getCurrentTrack_snd split: sum.splits)

lemma getCurrentTrack_noperm [simp]: "noperm (snd (getCurrentTrack cd tk w)) = noperm w"
  by (simp add: getCurrentTrack_snd split: sum.splits)

lemma getCurrentTrack_filter:
  "(\<And>m u. \<not> P (HttpDo m u)) \<Longrightarrow>
   filter P (trace (snd (getCurrentTrack cd tk w))) = filter P (trace w)"
  by (simp add: getCurrentTrack_snd split: sum.splits)

lemma getAccessToken_U_snd [simp]:
  "snd (getAccessToken_U cd tk w) =
     client_Do (tokenHTTP tk) (HttpDo ''POST'' ''https://accounts.spotify.com/api/token'') w"
  by (simp add: getAccessToken_U_def)

lemma getCurrentPlaying_U_files [simp]: "files (snd (getCurrentPlaying_U cd tk w)) = files w"
  by (simp add: getCurrentPlaying_U_def split_beta split: sum.splits)

lemma getCurrentPlaying_U_noperm [simp]: "noperm (snd (getCurrentPlaying_U cd tk w)) = noperm w"
  by (simp add: getCurrentPlaying_U_def split_beta split: sum.splits)

lemma getCurrentPlaying_U_filter:
  "(\<And>m u. \<not> P (HttpDo m u)) \<Longrightarrow>
   filter P (trace (snd (getCurrentPlaying_U cd tk w))) = filter P (trace w)"
  by (simp add: getCurrentPlaying_U_def split_beta split: sum.splits)

lemma firstExisting_files [simp]: "files (snd (firstExisting ps w)) = files w"
  by (induction ps arbitrary: w) (simp_all add: split_beta split: option.splits)

lemma firstExisting_noperm [simp]: "noperm (snd (firstExisting ps w)) = noperm w"
  by (induction ps arbitrary: w) (simp_all add: split_beta split: option.splits)

lemma firstExisting_filter:
  "(\<And>p. \<not> P (OsStat p)) \<Longrightarrow>
   filter P (trace (snd (firstExisting ps w))) = filter P (trace w)"
  by (induction ps arbitrary: w) (simp_all add: split_beta split: option.splits)


lemma getThumbnail_H_files [simp]: "files (snd (getThumbnail_H filename w)) = files w"
  by (simp add: getThumbnail_H_def split_beta split: option.splits)

lemma getThumbnail_H_noperm [simp]: "noperm (snd (getThumbnail_H filename w)) = noperm w"
  by (simp add: getThumbnail_H_def split_beta split: option.splits)

lemma getThumbnail_H_filter:
  "(\<And>p. \<not> P (OsStat p)) \<Longrightarrow>
   filter P (trace (snd (getThumbnail_H filename w))) = filter P (trace w)"
  by (simp add: getThumbnail_H_def split_beta firstExisting_filter split: option.splits)

lemma getThumbnail_E_files [simp]: "files (snd (getThumbnail_E filename w)) = files w"
  by (simp add: getThumbnail_E_def split_beta split: option.splits)

lemma getThumbnail_E_noperm [simp]: "noperm (snd (getThumbnail_E filename w)) = noperm w"
  by (simp add: getThumbnail_E_def split_beta split: option.splits)

lemma getThumbnail_E_filter:
  "(\<And>p. \<not> P (OsStat p)) \<Longrightarrow>
   filter P (trace (snd (getThumbnail_E filename w))) = filter P (trace w)"
  by (simp add: getThumbnail_E_def split_beta split: option.splits)

lemma getThumbnail_U_files [simp]: "files (snd (getThumbnail_U filename w)) = files w"
  by (simp add: getThumbnail_U_def split_beta split: option.splits)

lemma getThumbnail_U_noperm [simp]: "noperm (snd (getThumbnail_U filename w)) = noperm w"
  by (simp add: getThumbnail_U_def split_beta split: option.splits)

lemma getThumbnail_U_filter:
  "(\<And>p. \<not> P (OsStat p)) \<Longrightarrow>
   filter P (trace (snd (getThumbnail_U filename w))) = filter P (trace w)"
  by (simp add: getThumbnail_U_def split_beta firstExisting_filter split: option.splits)

lemma downloadFromYouTube_H_noperm [simp]:
  "noperm (snd (downloadFromYouTube_H tk track w)) = noperm w"
  by (simp add: downloadFromYouTube_H_def Let_def split_beta)

lemma downloadFromYouTube_H_filter:
  "(\<And>c a. \<not> P (Exec c a)) \<Longrightarrow>
   filter P (trace (snd (downloadFromYouTube_H tk track w))) = filter P (trace w)"
  by (simp add: downloadFromYouTube_H_def Let_def split_beta)

lemma downloadFromYouTube_E_noperm [simp]:
  "noperm (snd (downloadFromYouTube_E tk track w)) = noperm w"
  by (simp add: downloadFromYouTube_E_def Let_def split_beta)

lemma downloadFromYouTube_E_filter:
  "(\<And>c a. \<not> P (Exec c a)) \<Longrightarrow>
   filter P (trace (snd (downloadFromYouTube_E tk track w))) = filter P (trace w)"
  by (simp add: downloadFromYouTube_E_def Let_def split_beta)

lemma downloadFromYouTube_U_noperm [simp]:
  "noperm (snd (downloadFromYouTube_U tk song artists w)) = noperm w"
  by (simp add: downloadFromYouTube_U_def Let_def split_beta)

lemma downloadFromYouTube_U_filter:
  "(\<And>c a. \<not> P (Exec c a)) \<Longrightarrow>
   filter P (trace (snd (downloadFromYouTube_U tk song artists w))) = filter P (trace w)"
  by (simp add: downloadFromYouTube_U_def Let_def split_beta)

lemma thumbnailPart_snd [simp]:
  "snd (thumbnailPart thumbnail w) = (if thumbnail \<noteq> [] then emit (OsOpen thumbnail) w else w)"
  by (simp add: thumbnailPart_def split_beta split: sum.splits)

lemma thumbnailPart_U_snd [simp]:
  "snd (thumbnailPart_U thumbnail w) = (if thumbnail \<noteq> [] then emit (OsOpen thumbnail) w else w)"
  by (simp add: thumbnailPart_U_def addFileToWriter_def split_beta split: sum.splits)

lemma addFileToWriter_snd [simp]:
  "snd (addFileToWriter fieldName filePath w) = emit (OsOpen filePath) w"
  by (simp add: addFileToWriter_def split_beta split: sum.splits)

lemma sendAudio_H_files [simp]: "files (snd (sendAudio_H t tk filePath title performer thumbnail w)) = files w"
  by (simp add: sendAudio_H_def split_beta split: sum.splits)

lemma sendAudio_H_noperm [simp]:
  "noperm (snd (sendAudio_H t tk filePath title performer thumbnail w)) = noperm w"
  by (simp add: sendAudio_H_def split_beta split: sum.splits)

lemma sendAudio_H_filter:
  "(\<And>p. \<not> P (OsOpen p)) \<Longrightarrow> (\<And>u b. \<not> P (HttpPostForm u b)) \<Longrightarrow>
   filter P (trace (snd (sendAudio_H t tk filePath title performer thumbnail w)))
     = filter P (trace w)"
  by (simp add: sendAudio_H_def split_beta split: sum.splits)

lemma sendOrEditAudio_files [simp]:
  "files (snd (snd (sendOrEditAudio cd t tk filePath title performer thumbnail w))) = files w"
  by (simp add: sendOrEditAudio_def split_beta split: sum.splits)

lemma sendOrEditAudio_noperm [simp]:
  "noperm (snd (snd (sendOrEditAudio cd t tk filePath title performer thumbnail w))) = noperm w"
  by (simp add: sendOrEditAudio_def split_beta split: sum.splits)

lemma saveTrackHistory_noperm [simp]:
  "noperm (snd (saveTrackHistory cd filename history w)) = noperm w"
  by (simp add: saveTrackHistory_def split_beta split: option.splits sum.splits)

lemma pairI: "fst x = a \<Longrightarrow> x = (a, snd x)"
  by (cases x) simp

lemma saveTrackHistory_filter:
  "(\<And>p. \<not> P (OsCreate p)) \<Longrightarrow>
   filter P (trace (snd (saveTrackHistory cd filename history w))) = filter P (trace w)"
  by (simp add: saveTrackHistory_def split_beta split: option.splits sum.splits)

lemma saveData_noperm [simp]: "noperm (snd (saveData cd filename data w)) = noperm w"
  by (simp add: saveData_def split_beta split: option.splits sum.splits)

lemma loadData_snd [simp]: "snd (loadData cd filename w) = emit (OsOpen filename) w"
  by (simp add: loadData_def split_beta split: sum.splits)

lemma loadTrackHistory_snd [simp]:
  "snd (loadTrackHistory cd filename w) = emit (OsOpen filename) w"
  by (simp add: loadTrackHistory_def split_beta split: sum.splits)

lemma audioFileName_nonempty [simp]: "audioFileName \<noteq> []" "audioFile \<noteq> []"
  by (simp_all add: audioFileName_def audioFile_def)

section \<open>Track keys\<close>

lemma overlap_sublist:
  assumes eq: "us @ sep @ r = sep @ s" and us: "us \<noteq> []"
  shows "sublist sep (b @ us @ butlast sep)"
proof (cases "sep = []")
  case True
  then show ?thesis by simp
next
  case False
  then have "us @ sep @ r = (us @ butlast sep) @ (last sep # r)"
    by simp
  with eq have p2: "prefix (us @ butlast sep) (sep @ s)"
    by (metis prefixI)
  have p1: "prefix sep (sep @ s)"
    by simp
  have "length sep \<le> length (us @ butlast sep)"
    using us False by (cases us) auto
  with p1 p2 have "prefix sep (us @ butlast sep)"
    by (rule prefix_length_prefix)
  then obtain t where "us @ butlast sep = sep @ t"
    by (auto simp: prefix_def)
  then have "b @ us @ butlast sep = b @ sep @ t"
    by simp
  then show ?thesis
    by (metis sublist_appendI)
qed

lemma sepfree_cancel:
  assumes eq: "a @ sep @ r = b @ sep @ s"
    and a: "sepfree sep a" and b: "sepfree sep b"
  shows "a = b \<and> r = s"
proof -
  from eq obtain us where us:
    "(a = b @ us \<and> us @ sep @ r = sep @ s) \<or> (a @ us = b \<and> sep @ r = us @ sep @ s)"
    unfolding append_eq_append_conv2 by blast
  then have "us = []"
  proof
    assume h: "a = b @ us \<and> us @ sep @ r = sep @ s"
    show ?thesis
    proof (rule ccontr)
      assume "us \<noteq> []"
      with h have "sublist sep (b @ us @ butlast sep)"
        by (intro overlap_sublist) auto
      with h a show False
        by (simp add: sepfree_def)
    qed
  next
    assume h: "a @ us = b \<and> sep @ r = us @ sep @ s"
    show ?thesis
    proof (rule ccontr)
      assume "us \<noteq> []"
      with h have "sublist sep (a @ us @ butlast sep)"
        by (intro overlap_sublist [where r = s and s = r]) auto
      with h b show False
        by (auto simp: sepfree_def)
    qed
  qed
  with us show ?thesis by auto
qed

lemma sepfree_comma:
  assumes "\<not> sublist '', '' x"
  shows "sepfree '', '' x"
proof -
  have "sublist '', '' x" if "sublist '', '' (x @ '','')"
  proof -
    from that obtain ps ss where e: "x @ '','' = ps @ '', '' @ ss"
      by (auto simp: sublist_def)
    show ?thesis
    proof (cases ss rule: rev_cases)
      case Nil
      with e have "last (x @ '','') = last (ps @ '', '')" by simp
      then show ?thesis by simp
    next
      case (snoc ss' c)
      with e have "x @ '','' = (ps @ '', '' @ ss') @ [c]" by simp
      then have "x = ps @ '', '' @ ss'"
        by (metis append1_eq_conv)
      then show ?thesis by (metis sublist_appendI)
    qed
  qed
  with assms show ?thesis
    by (auto simp: sepfree_def)
qed

lemma Join_Cons_Cons:
  "ys \<noteq> [] \<Longrightarrow> Join (x # ys) sep = x @ sep @ Join ys sep"
  by (cases ys) auto

lemma sepfree_no_sep:
  assumes "sepfree sep x"
  shows "x \<noteq> a @ sep @ r"
proof
  assume "x = a @ sep @ r"
  then have "x @ butlast sep = a @ sep @ (r @ butlast sep)"
    by simp
  then have "sublist sep (x @ butlast sep)"
    by (metis sublist_appendI)
  with assms show False
    by (simp add: sepfree_def)
qed

lemma Join_sepfree_inj:
  assumes "Join xs sep = Join ys sep"
    and "xs \<noteq> []" and "ys \<noteq> []"
    and "\<forall>x \<in> set xs. sepfree sep x" and "\<forall>y \<in> set ys. sepfree sep y"
  shows "xs = ys"
  using assms
proof (induction xs arbitrary: ys)
  case Nil
  then show ?case by simp
next
  case (Cons x xs)
  from Cons.prems obtain y ys' where ys: "ys = y # ys'"
    by (cases ys) auto
  have fx: "sepfree sep x" and fy: "sepfree sep y"
    using Cons.prems ys by simp_all
  show ?case
  proof (cases "xs = []")
    case xs: True
    show ?thesis
    proof (cases "ys' = []")
      case True
      with xs ys Cons.prems show ?thesis by simp
    next
      case False
      with xs ys Cons.prems have "x = y @ sep @ Join ys' sep"
        by (simp add: Join_Cons_Cons)
      with fx show ?thesis
        using sepfree_no_sep by blast
    qed
  next
    case xs: False
    show ?thesis
    proof (cases "ys' = []")
      case True
      with xs ys Cons.prems have "y = x @ sep @ Join xs sep"
        by (simp add: Join_Cons_Cons)
      with fy show ?thesis
        using sepfree_no_sep by blast
    next
      case False
      with xs ys Cons.prems have "x @ sep @ Join xs sep = y @ sep @ Join ys' sep"
        by (simp add: Join_Cons_Cons)
      with fx fy have "x = y" and j: "Join xs sep = Join ys' sep"
        using sepfree_cancel by blast+
      moreover from j xs False Cons.prems ys have "xs = ys'"
        by (intro Cons.IH) auto
      ultimately show ?thesis
        using ys by simp
    qed
  qed
qed

text \<open>
  Claim C3, as the code has it. Tracks with the same name and the same artist sequence have
  the same key. Two different tracks have different keys when neither name contains
  \<open>" - "\<close> or ends in \<open>" -"\<close>, both artist sequences are non-empty and no artist name
  contains \<open>", "\<close>: then a change of the name, of an artist or of the order of the artists
  changes the key. The key is plain concatenation, so without these conditions different
  tracks can share a key.
\<close>

theorem trackKey_distinct:
  fixes t1 t2 :: Track
  shows "(t1 = t2 \<longrightarrow> trackKey t1 = trackKey t2) \<and>
         (sepfree '' - '' (Name t1) \<and> sepfree '' - '' (Name t2) \<and>
          Artists t1 \<noteq> [] \<and> Artists t2 \<noteq> [] \<and>
          (\<forall>a \<in> set (Artists t1) \<union> set (Artists t2). \<not> sublist '', '' a) \<and>
          t1 \<noteq> t2
          \<longrightarrow> trackKey t1 \<noteq> trackKey t2)"
proof (intro conjI impI)
  assume "t1 = t2"
  then show "trackKey t1 = trackKey t2" by simp
next
  assume h: "sepfree '' - '' (Name t1) \<and> sepfree '' - '' (Name t2) \<and>
          Artists t1 \<noteq> [] \<and> Artists t2 \<noteq> [] \<and>
          (\<forall>a \<in> set (Artists t1) \<union> set (Artists t2). \<not> sublist '', '' a) \<and>
          t1 \<noteq> t2"
  show "trackKey t1 \<noteq> trackKey t2"
  proof
    assume "trackKey t1 = trackKey t2"
    with h have n: "Name t1 = Name t2"
      and j: "Join (Artists t1) '', '' = Join (Artists t2) '', ''"
      using sepfree_cancel [of "Name t1" "'' - ''" _ "Name t2"]
      by (auto simp: trackKey_def)
    from h have "\<forall>x \<in> set (Artists t1). sepfree '', '' x"
      and "\<forall>y \<in> set (Artists t2). sepfree '', '' y"
      by (auto intro: sepfree_comma)
    with j h have "Artists t1 = Artists t2"
      by (intro Join_sepfree_inj [where sep = "'', ''"]) auto
    with n have "t1 = t2"
      by simp
    with h show False by simp
  qed
qed

text \<open>The artists of one track in two orders give two keys.\<close>

theorem trackKey_distinct_witness:
  "sepfree '' - '' ''Song A'' \<and>
   \<not> sublist '', '' ''Artist X'' \<and> \<not> sublist '', '' ''Artist Y'' \<and>
   trackKey \<lparr>Name = ''Song A'', Artists = [''Artist X'', ''Artist Y'']\<rparr>
     \<noteq> trackKey \<lparr>Name = ''Song A'', Artists = [''Artist Y'', ''Artist X'']\<rparr>"
proof -
  have s: "sepfree '' - '' ''Song A''"
    by (simp add: sepfree_def sublist_code)
  have x: "\<not> sublist '', '' ''Artist X''" and y: "\<not> sublist '', '' ''Artist Y''"
    by (simp_all add: sublist_code)
  from s x y
    trackKey_distinct [of "\<lparr>Name = ''Song A'', Artists = [''Artist X'', ''Artist Y'']\<rparr>"
      "\<lparr>Name = ''Song A'', Artists = [''Artist Y'', ''Artist X'']\<rparr>"]
  show ?thesis by simp
qed

text \<open>
  Claim C3 as stated fails: the artist "Tyler, The Creator" alone and the two artists "Tyler"
  and "The Creator" give one key for two artist sequences.
\<close>

theorem trackKey_collision:
  "Artists \<lparr>Name = ''EARFQUAKE'', Artists = [''Tyler, The Creator'']\<rparr>
     \<noteq> Artists \<lparr>Name = ''EARFQUAKE'', Artists = [''Tyler'', ''The Creator'']\<rparr> \<and>
   trackKey \<lparr>Name = ''EARFQUAKE'', Artists = [''Tyler, The Creator'']\<rparr>
     = trackKey \<lparr>Name = ''EARFQUAKE'', Artists = [''Tyler'', ''The Creator'']\<rparr>"
  by (simp add: trackKey_def)

section \<open>The now-playing query\<close>

lemma getAccessToken_ok:
  "tokenHTTP tk = Response 200 tbody \<Longrightarrow> decodeToken cd tbody = Inr token \<Longrightarrow>
   fst (getAccessToken cd tk w) = Inr token"
  by (simp add: getAccessToken_def)

lemma getAccessToken_U_ok:
  "tokenHTTP tk = Response 200 tbody \<Longrightarrow> decodeToken cd tbody = Inr token \<Longrightarrow>
   fst (getAccessToken_U cd tk w) = Inr token"
  by (simp add: getAccessToken_U_def)

lemma getAccessToken_P_ok:
  "tokenHTTP tk = Response 200 tbody \<Longrightarrow> decodeToken cd tbody = Inr token \<Longrightarrow>
   fst (getAccessToken_P cd tk w) = Inr token"
  by (simp add: getAccessToken_P_def)

lemma getCurrentTrack_status:
  assumes "fst (getAccessToken cd tk w) = Inr token"
    and "playingHTTP tk = Response status body"
  shows "fst (getCurrentTrack cd tk w) =
           (if status = 204 then Inr None
            else if status \<noteq> 200
            then Inl (Errorf ''unexpected status code %d: %s'' [ArgD status, ArgS body])
            else (case decodeSong cd body of
                    Inl e \<Rightarrow> Inl (Errorf ''error decoding response: %w'' [ArgW e])
                  | Inr response \<Rightarrow>
                      Inr (Some \<lparr>Name = Item_Name response, Artists = Item_Artists response\<rparr>)))"
  using assms by (simp add: getCurrentTrack_def split_beta split: sum.splits)

lemma getCurrentPlaying_U_status:
  assumes "fst (getAccessToken_U cd tk w) = Inr token"
    and "playingHTTP tk = Response status body"
  shows "fst (getCurrentPlaying_U cd tk w) =
           (if status = 204 then Inl (Errorf ''not listening to music'' [])
            else if status \<noteq> 200
            then Inl (Errorf ''get current playing request failed with status code %d: %s''
                        [ArgD status, ArgS body])
            else (case decodeSong cd body of
                    Inl e \<Rightarrow> Inl (Errorf ''failed to unmarshal response body: %w'' [ArgW e])
                  | Inr song \<Rightarrow> Inr song))"
  using assms by (simp add: getCurrentPlaying_U_def split_beta split: sum.splits)

lemma getCurrentPlaying_P_status:
  assumes "fst (getAccessToken_P cd tk w) = Inr token"
    and "playingHTTP tk = Response status body"
  shows "fst (getCurrentPlaying_P cd tk w) =
           (if status = 204 then Inl (Errorf ''not listening music'' [])
            else if status \<noteq> 200
            then Inl (Errorf ''get current playing request failed with status code: %d''
                        [ArgD status])
            else (case decodeSong cd body of
                    Inl e \<Rightarrow>
                      Inl (Errorf ''failed to unmarshal response body with error: %w'' [ArgW e])
                  | Inr song \<Rightarrow> Inr song))"
  using assms by (simp add: getCurrentPlaying_P_def split_beta split: sum.splits)

text \<open>
  Claim C2, as the code has it. Once the access token is there and the currently-playing
  endpoint answers with a status and a body:
  \<^item> \<open>getCurrentTrack\<close> (variants \<open>H\<close> and \<open>E\<close>) returns the nil track and no error on 204,
    the error "unexpected status code" with the status and the body on a status other than
    200 and 204, and on 200 the decoded track or a decoding error, which carries neither;
  \<^item> \<open>getCurrentPlaying\<close> (variants \<open>U\<close> and \<open>P\<close>) returns an error on 204, "not listening to
    music", which carries neither status nor body; on a status other than 200 and 204 its
    error carries the status, and in variant \<open>U\<close> the body as well.
\<close>

theorem now_playing_by_status:
  assumes "tokenHTTP tk = Response 200 tbody"
    and "decodeToken cd tbody = Inr token"
    and "playingHTTP tk = Response status body"
  shows
    "(status = 204 \<longrightarrow>
        fst (getCurrentTrack cd tk w) = Inr None \<and>
        fst (getCurrentPlaying_U cd tk w) = Inl (Errorf ''not listening to music'' []) \<and>
        fst (getCurrentPlaying_P cd tk w) = Inl (Errorf ''not listening music'' [])) \<and>
     (status \<noteq> 200 \<and> status \<noteq> 204 \<longrightarrow>
        fst (getCurrentTrack cd tk w) =
          Inl (Errorf ''unexpected status code %d: %s'' [ArgD status, ArgS body]) \<and>
        fst (getCurrentPlaying_U cd tk w) =
          Inl (Errorf ''get current playing request failed with status code %d: %s''
                 [ArgD status, ArgS body]) \<and>
        fst (getCurrentPlaying_P cd tk w) =
          Inl (Errorf ''get current playing request failed with status code: %d''
                 [ArgD status])) \<and>
     (status = 200 \<longrightarrow>
        fst (getCurrentTrack cd tk w) =
          (case decodeSong cd body of
             Inl e \<Rightarrow> Inl (Errorf ''error decoding response: %w'' [ArgW e])
           | Inr response \<Rightarrow>
               Inr (Some \<lparr>Name = Item_Name response, Artists = Item_Artists response\<rparr>)))"
proof -
  note tok = getAccessToken_ok [OF assms(1,2)] getAccessToken_U_ok [OF assms(1,2)]
    getAccessToken_P_ok [OF assms(1,2)]
  show ?thesis
    using getCurrentTrack_status [OF tok(1) assms(3), of w]
      getCurrentPlaying_U_status [OF tok(2) assms(3), of w]
      getCurrentPlaying_P_status [OF tok(3) assms(3), of w]
    by simp
qed

text \<open>On the ticks where nothing plays, where Spotify answers 429, and where a song plays.\<close>

theorem now_playing_by_status_witness:
  "fst (getCurrentTrack codec0 tick_204 world0) = Inr None \<and>
   fst (getCurrentPlaying_U codec0 tick_204 world0) = Inl (Errorf ''not listening to music'' []) \<and>
   fst (getCurrentPlaying_P codec0 tick_204 world0) = Inl (Errorf ''not listening music'' []) \<and>
   fst (getCurrentTrack codec0 tick_429 world0) =
     Inl (Errorf ''unexpected status code %d: %s'' [ArgD 429, ArgS ''slow down'']) \<and>
   fst (getCurrentTrack codec0 tick_ok world0) = Inr (Some track0)"
proof -
  have d: "decodeToken codec0 token_body = Inr ''t0''"
    by (simp add: codec0_def)
  have t: "tokenHTTP tick_204 = Response 200 token_body"
    "tokenHTTP tick_429 = Response 200 token_body"
    "tokenHTTP tick_ok = Response 200 token_body"
    by (simp_all add: tick_204_def tick_429_def tick_ok_def)
  have p: "playingHTTP tick_204 = Response 204 []"
    "playingHTTP tick_429 = Response 429 ''slow down''"
    "playingHTTP tick_ok = Response 200 playing_body"
    by (simp_all add: tick_204_def tick_429_def tick_ok_def)
  have s: "decodeSong codec0 playing_body = Inr \<lparr>Item_Name = ''Song A'', Item_Artists = [''Artist X'']\<rparr>"
    by (simp add: codec0_def)
  from now_playing_by_status [OF t(1) d p(1), of world0]
    now_playing_by_status [OF t(2) d p(2), of world0]
    now_playing_by_status [OF t(3) d p(3), of world0] s
  show ?thesis
    by (simp add: track0_def)
qed

text \<open>
  Claim C2 as stated fails in variant \<open>U\<close>: on a 204 response \<open>getCurrentPlaying\<close> returns an
  error.
\<close>

theorem getCurrentPlaying_204_is_error:
  "playingHTTP tick_204 = Response 204 [] \<and>
   fst (getCurrentPlaying_U codec0 tick_204 world0) = Inl (Errorf ''not listening to music'' [])"
  by (simp add: getCurrentPlaying_U_def getAccessToken_U_def tick_204_def tick_ok_def
      codec0_def split_beta)

section \<open>The history file\<close>




text \<open>
  Claim C6. Loading from a path where no file is yields the empty map and no error, in
  \<open>loadTrackHistory\<close> and in \<open>loadData\<close>. When the file opens and the decoder fails, the
  failure \<open>io.EOF\<close> (end of input before any value, as on an empty file) yields the empty map
  and no error, and every other failure makes the load return an error: the decoder's error
  wrapped by \<open>loadTrackHistory\<close>, the decoder's error itself by \<open>loadData\<close>.
\<close>

theorem load_missing_or_malformed:
  "(files w filename = None \<longrightarrow>
      fst (loadTrackHistory cd filename w) = Inr Map.empty \<and>
      fst (loadData cd filename w) = Inr Map.empty) \<and>
   (fst (os_Open filename w) = Inr content \<and> decodeHistory cd content = Inl e \<longrightarrow>
      fst (loadTrackHistory cd filename w) =
        (if e = EOF then Inr Map.empty else Inl (Errorf ''error decoding JSON: %w'' [ArgW e])) \<and>
      fst (loadData cd filename w) = (if e = EOF then Inr Map.empty else Inl e))"
  by (auto simp: loadTrackHistory_def loadData_def os_Open_def split_beta)

text \<open>
  No history file; an empty history file; a history file cut off after its first character.
\<close>

theorem load_missing_or_malformed_witness:
  "fst (loadTrackHistory codec0 dataFileName world0) = Inr Map.empty \<and>
   fst (loadData codec0 dataFile world0) = Inr Map.empty \<and>
   fst (loadTrackHistory codec0 dataFileName (world0\<lparr>files := [dataFileName \<mapsto> []]\<rparr>))
     = Inr Map.empty \<and>
   fst (loadData codec0 dataFile (world0\<lparr>files := [dataFile \<mapsto> []]\<rparr>)) = Inr Map.empty \<and>
   fst (loadTrackHistory codec0 dataFileName (world0\<lparr>files := [dataFileName \<mapsto> ''{'']\<rparr>))
     = Inl (Errorf ''error decoding JSON: %w'' [ArgW (LibError ''invalid character'')]) \<and>
   fst (loadData codec0 dataFile (world0\<lparr>files := [dataFile \<mapsto> ''{'']\<rparr>))
     = Inl (LibError ''invalid character'')"
proof -
  have d: "decodeHistory codec0 [] = Inl EOF"
    "decodeHistory codec0 ''{'' = Inl (LibError ''invalid character'')"
    by (simp_all add: codec0_def history_doc_def)
  have o: "fst (os_Open dataFileName (world0\<lparr>files := [dataFileName \<mapsto> []]\<rparr>)) = Inr []"
    "fst (os_Open dataFile (world0\<lparr>files := [dataFile \<mapsto> []]\<rparr>)) = Inr []"
    "fst (os_Open dataFileName (world0\<lparr>files := [dataFileName \<mapsto> ''{'']\<rparr>)) = Inr ''{''"
    "fst (os_Open dataFile (world0\<lparr>files := [dataFile \<mapsto> ''{'']\<rparr>)) = Inr ''{''"
    by (simp_all add: os_Open_def world0_def dataFileName_def dataFile_def)
  have n: "files world0 dataFileName = None" "files world0 dataFile = None"
    by (simp_all add: world0_def)
  from load_missing_or_malformed [where w = world0 and filename = dataFileName and cd = codec0]
    load_missing_or_malformed [where w = world0 and filename = dataFile and cd = codec0]
    load_missing_or_malformed [where w = "world0\<lparr>files := [dataFileName \<mapsto> []]\<rparr>"
      and filename = dataFileName and content = "[]" and cd = codec0 and e = EOF]
    load_missing_or_malformed [where w = "world0\<lparr>files := [dataFile \<mapsto> []]\<rparr>"
      and filename = dataFile and content = "[]" and cd = codec0 and e = EOF]
    load_missing_or_malformed [where w = "world0\<lparr>files := [dataFileName \<mapsto> ''{'']\<rparr>"
      and filename = dataFileName and content = "''{''" and cd = codec0
      and e = "LibError ''invalid character''"]
    load_missing_or_malformed [where w = "world0\<lparr>files := [dataFile \<mapsto> ''{'']\<rparr>"
      and filename = dataFile and content = "''{''" and cd = codec0
      and e = "LibError ''invalid character''"]
    d o n
  show ?thesis
    by simp
qed

section \<open>Variant \<open>H\<close>: the poll cycle\<close>

lemma acquire_H_noperm [simp]: "noperm (snd (acquire_H cd tk history w)) = noperm w"
  by (simp add: acquire_H_def split_beta split: sum.splits option.splits)

lemma acquire_H_filter:
  assumes "\<And>m u. \<not> P (HttpDo m u)" and "\<And>s. \<not> P (LogPrintln s)"
    and "\<And>f a. \<not> P (LogPrintf f a)" and "\<And>p. \<not> P (OsStat p)"
    and "\<And>c a. \<not> P (Exec c a)"
  shows "filter P (trace (snd (acquire_H cd tk history w))) = filter P (trace w)"
  using assms
  by (simp add: acquire_H_def split_beta getCurrentTrack_filter downloadFromYouTube_H_filter
      getThumbnail_H_filter split: sum.splits option.splits)

lemma acquire_H_Proceed:
  assumes "acquire_H cd tk history w = (Proceed (track, thumbnail), w1)"
  shows "fst (getCurrentTrack cd tk w) = Inr (Some track) \<and> \<not> lookup history (trackKey track)"
  using assms
  by (auto simp: acquire_H_def split_beta split: sum.splits option.splits if_splits)

lemma acquire_H_skip:
  assumes "getCurrentTrack cd tk w = (Inr (Some track), w1)"
    and "lookup history (trackKey track)"
  shows "acquire_H cd tk history w =
           (Return None,
            emit (LogPrintf ''Track '%s' already processed. Skipping.'' [ArgS (trackKey track)])
              (emit (LogPrintf ''Current track: %s'' [ArgS (trackKey track)]) w1))"
  using assms by (simp add: acquire_H_def)

lemma acquire_H_downloads:
  assumes "fst (getCurrentTrack cd tk w) = Inr (Some track)"
    and "\<not> lookup history (trackKey track)"
  shows "filter is_acquisition (trace (snd (acquire_H cd tk history w))) =
           filter is_acquisition (trace w) @
           [Exec ''yt-dlp''
              [''-x'', ''--audio-format'', ''mp3'', ''--write-thumbnail'', ''-o'', audioFileName,
               ''ytsearch1:'' @ Name track @ '' '' @ Join (Artists track) '' '']]"
  using assms
  by (simp add: acquire_H_def split_beta getCurrentTrack_filter downloadFromYouTube_H_def
      Let_def getThumbnail_H_filter split: sum.splits option.splits)

lemma processCurrentTrack_H_tail_filter:
  assumes "\<And>p. \<not> P (OsOpen p)" and "\<And>u b. \<not> P (HttpPostForm u b)"
    and "\<And>p. \<not> P (OsCreate p)" and "\<And>f a. \<not> P (LogPrintf f a)"
    and "\<And>p. \<not> P (OsRemove p)"
  shows "filter P (trace (snd (snd (processCurrentTrack_H cd t tk history w)))) =
           filter P (trace (snd (acquire_H cd tk history w)))"
  using assms
  by (simp add: processCurrentTrack_H_def split_beta Let_def sendAudio_H_filter
      saveTrackHistory_filter split: stage.splits option.splits)

lemma processCurrentTrack_H_history:
  "fst (snd (processCurrentTrack_H cd t tk history w)) = history \<or>
   (\<exists>key. fst (snd (processCurrentTrack_H cd t tk history w)) = history(key \<mapsto> True))"
  by (auto simp: processCurrentTrack_H_def split_beta Let_def split: stage.splits option.splits)

lemma processCurrentTrack_H_keeps:
  assumes "lookup history key"
  shows "lookup (fst (snd (processCurrentTrack_H cd t tk history w))) key"
  using assms processCurrentTrack_H_history [of cd t tk history w]
  by (auto simp: lookup_def)

lemma run_loop_H_keeps:
  "lookup history key \<Longrightarrow> lookup (fst (run_loop_H cd t ticks history w)) key"
proof (induction ticks arbitrary: history w)
  case Nil
  then show ?case by simp
next
  case (Cons tk ticks)
  from processCurrentTrack_H_keeps [OF Cons.prems, of cd t tk w]
  show ?case
    by (cases "processCurrentTrack_H cd t tk history w")
      (auto split: option.splits intro: Cons.IH)
qed

text \<open>
  Claim C1. When a cycle reaches the publish step and \<open>sendAudio\<close> returns an error, the
  cycle returns that error wrapped, the history map is the one it was given, in which the
  key of the track is not set, the publish step changes no file, and the cycle as a whole
  never calls \<open>os.Create\<close>, so the history file is not rewritten. On a later tick on which the
  same track plays, the cycle run with that history runs the downloader for it again.
\<close>

theorem failed_publish_keeps_history:
  assumes acq: "acquire_H cd tk history w = (Proceed (track, thumbnail), w1)"
    and pub: "sendAudio_H t tk audioFileName (Name track) (Join (Artists track) '', '')
                thumbnail w1 = (Some e, w2)"
  shows "processCurrentTrack_H cd t tk history w =
           (Some (Errorf ''error uploading to Telegram: %w'' [ArgW e]), history, w2) \<and>
         \<not> lookup history (trackKey track) \<and>
         files w2 = files w1 \<and>
         filter is_create (trace w2) = filter is_create (trace w) \<and>
         (\<forall>tk' w'. fst (getCurrentTrack cd tk' w') = Inr (Some track) \<longrightarrow>
            filter is_acquisition
              (trace (snd (snd (processCurrentTrack_H cd t tk' history w')))) =
            filter is_acquisition (trace w') @
            [Exec ''yt-dlp''
               [''-x'', ''--audio-format'', ''mp3'', ''--write-thumbnail'', ''-o'',
                audioFileName,
                ''ytsearch1:'' @ Name track @ '' '' @ Join (Artists track) '' '']])"
proof -
  have res: "processCurrentTrack_H cd t tk history w =
      (Some (Errorf ''error uploading to Telegram: %w'' [ArgW e]), history, w2)"
    using acq pub by (simp add: processCurrentTrack_H_def)
  have unset: "\<not> lookup history (trackKey track)"
    using acquire_H_Proceed [OF acq] by simp
  have w2: "w2 = snd (sendAudio_H t tk audioFileName (Name track) (Join (Artists track) '', '')
      thumbnail w1)"
    using pub by simp
  have w1: "w1 = snd (acquire_H cd tk history w)"
    using acq by simp
  have files: "files w2 = files w1"
    unfolding w2 by simp
  have "filter is_create (trace w2) = filter is_create (trace w1)"
    unfolding w2 by (simp add: sendAudio_H_filter)
  also have "\<dots> = filter is_create (trace w)"
    unfolding w1 by (simp add: acquire_H_filter)
  finally have create: "filter is_create (trace w2) = filter is_create (trace w)" .
  have again: "filter is_acquisition
        (trace (snd (snd (processCurrentTrack_H cd t tk' history w')))) =
      filter is_acquisition (trace w') @
      [Exec ''yt-dlp''
         [''-x'', ''--audio-format'', ''mp3'', ''--write-thumbnail'', ''-o'', audioFileName,
          ''ytsearch1:'' @ Name track @ '' '' @ Join (Artists track) '' '']]"
    if "fst (getCurrentTrack cd tk' w') = Inr (Some track)" for tk' w'
    using acquire_H_downloads [OF that unset]
    by (simp add: processCurrentTrack_H_tail_filter)
  from res unset files create again show ?thesis
    by blast
qed

lemma acquire_H_files:
  assumes "acquire_H cd tk history w = (Proceed (track, thumbnail), w1)"
  shows "files w1 = files w ++
           snd (ytdlp tk [''-x'', ''--audio-format'', ''mp3'', ''--write-thumbnail'', ''-o'',
                          audioFileName,
                          ''ytsearch1:'' @ Name track @ '' '' @ Join (Artists track) '' ''])"
  using assms
  by (auto simp: acquire_H_def split_beta downloadFromYouTube_H_def Let_def
      split: sum.splits option.splits if_splits)

lemma example_getCurrentTrack:
  "tokenHTTP tk = Response 200 token_body \<Longrightarrow> playingHTTP tk = Response 200 playing_body \<Longrightarrow>
   fst (getCurrentTrack codec0 tk w) = Inr (Some track0)"
  by (simp add: getCurrentTrack_def getAccessToken_def split_beta codec0_def track0_def)

lemma example_trackKey: "trackKey track0 = ''Song A - Artist X''"
  by (simp add: trackKey_def track0_def)

lemma example_acquire_H:
  assumes "tokenHTTP tk = Response 200 token_body"
    and "playingHTTP tk = Response 200 playing_body"
    and "ytdlp tk = (\<lambda>args. (None, [''audio.mp3'' \<mapsto> ''ID3'', ''audio.mp3.jpg'' \<mapsto> ''JFIF'']))"
  shows "fst (acquire_H codec0 tk Map.empty w) = Proceed (track0, ''audio.mp3.jpg'')"
  using example_getCurrentTrack [OF assms(1,2), of w] assms(3)
  by (simp add: acquire_H_def split_beta lookup_def downloadFromYouTube_H_def Let_def
      getThumbnail_H_def thumbnailExtensions_def audioFileName_def os_Stat_def)

lemma example_sendAudio_H:
  assumes "files w ''audio.mp3'' = Some audio" and "files w ''audio.mp3.jpg'' = Some thumb"
    and "noperm w = {}"
  shows "fst (sendAudio_H t tk audioFileName title performer ''audio.mp3.jpg'' w) =
           (case telegramHTTP tk of
              NewRequestError e \<Rightarrow> Some (Errorf ''error creating request: %w'' [ArgW e])
            | DoError e \<Rightarrow> Some (Errorf ''error sending request: %w'' [ArgW e])
            | Response status respBody \<Rightarrow>
                if status \<noteq> 200
                then Some (Errorf ''unexpected status code %d: %s'' [ArgD status, ArgS respBody])
                else None)"
  using assms
  by (simp add: sendAudio_H_def split_beta os_Open_def thumbnailPart_def audioFileName_def)

text \<open>
  A first cycle in an empty directory with an empty history, on the tick where Telegram
  answers 502, and a second cycle on the same tick.
\<close>

theorem failed_publish_keeps_history_witness:
  "fst (acquire_H codec0 tick_fail Map.empty world0) = Proceed (track0, ''audio.mp3.jpg'') \<and>
   fst (processCurrentTrack_H codec0 client0 tick_fail Map.empty world0) =
     Some (Errorf ''error uploading to Telegram: %w''
             [ArgW (Errorf ''unexpected status code %d: %s'' [ArgD 502, ArgS ''Bad Gateway''])]) \<and>
   fst (snd (processCurrentTrack_H codec0 client0 tick_fail Map.empty world0)) = Map.empty \<and>
   filter is_create
     (trace (snd (snd (processCurrentTrack_H codec0 client0 tick_fail Map.empty world0)))) = [] \<and>
   length (filter is_acquisition
     (trace (snd (snd (processCurrentTrack_H codec0 client0 tick_fail Map.empty
        (snd (snd (processCurrentTrack_H codec0 client0 tick_fail Map.empty world0)))))))) = 2"
proof -
  let ?w1 = "snd (acquire_H codec0 tick_fail Map.empty world0)"
  let ?w2 = "snd (sendAudio_H client0 tick_fail audioFileName (Name track0)
               (Join (Artists track0) '', '') ''audio.mp3.jpg'' ?w1)"
  let ?e = "Errorf ''unexpected status code %d: %s'' [ArgD 502, ArgS ''Bad Gateway'']"
  have tk: "tokenHTTP tick_fail = Response 200 token_body"
    "playingHTTP tick_fail = Response 200 playing_body"
    "ytdlp tick_fail = (\<lambda>args. (None, [''audio.mp3'' \<mapsto> ''ID3'', ''audio.mp3.jpg'' \<mapsto> ''JFIF'']))"
    "telegramHTTP tick_fail = Response 502 ''Bad Gateway''"
    by (simp_all add: tick_fail_def tick_ok_def)
  have a: "acquire_H codec0 tick_fail Map.empty world0 = (Proceed (track0, ''audio.mp3.jpg''), ?w1)"
    using example_acquire_H [OF tk(1-3), of world0] by (rule pairI)
  have f: "files ?w1 ''audio.mp3'' = Some ''ID3''" "files ?w1 ''audio.mp3.jpg'' = Some ''JFIF''"
    using acquire_H_files [OF a] by (simp_all add: tk world0_def)
  have n: "noperm ?w1 = {}"
    by (simp add: world0_def)
  have p: "sendAudio_H client0 tick_fail audioFileName (Name track0)
             (Join (Artists track0) '', '') ''audio.mp3.jpg'' ?w1 = (Some ?e, ?w2)"
    using example_sendAudio_H [OF f n, of client0 tick_fail] by (intro pairI) (simp add: tk)
  have g: "fst (getCurrentTrack codec0 tick_fail ?w2) = Inr (Some track0)"
    by (rule example_getCurrentTrack [OF tk(1,2)])
  from failed_publish_keeps_history [OF a p] g
  have res: "processCurrentTrack_H codec0 client0 tick_fail Map.empty world0 =
          (Some (Errorf ''error uploading to Telegram: %w'' [ArgW ?e]), Map.empty, ?w2)"
    and cr: "filter is_create (trace ?w2) = filter is_create (trace world0)"
    and again: "filter is_acquisition
           (trace (snd (snd (processCurrentTrack_H codec0 client0 tick_fail Map.empty ?w2)))) =
         filter is_acquisition (trace ?w2) @
         [Exec ''yt-dlp''
            [''-x'', ''--audio-format'', ''mp3'', ''--write-thumbnail'', ''-o'', audioFileName,
             ''ytsearch1:'' @ Name track0 @ '' '' @ Join (Artists track0) '' '']]"
    by blast+
  have one: "length (filter is_acquisition (trace ?w2)) = 1"
    using acquire_H_downloads [of codec0 tick_fail world0 track0 Map.empty]
      example_getCurrentTrack [OF tk(1,2), of world0]
    by (simp add: sendAudio_H_filter lookup_def world0_def)
  have t0: "trace world0 = []"
    by (simp add: world0_def)
  have c1: "fst (acquire_H codec0 tick_fail Map.empty world0) = Proceed (track0, ''audio.mp3.jpg'')"
    by (rule example_acquire_H [OF tk(1-3)])
  have c5: "length (filter is_acquisition
     (trace (snd (snd (processCurrentTrack_H codec0 client0 tick_fail Map.empty ?w2))))) = 2"
    unfolding again using one by simp
  show ?thesis
    unfolding res using c1 cr c5 t0 by simp
qed

text \<open>
  Claim C4. In variant \<open>H\<close>, when the query returns a track whose key the history maps to
  true, the cycle is the query followed by two log lines: it returns no error and the
  history it was given. In variant \<open>U\<close> with the upload flag \<open>"true"\<close>, when the loaded map
  has the key of the song, the cycle is the query, the log line of the key, the load and one
  more log line. In both the cycle runs no downloader, posts nothing to Telegram, and leaves
  every file as it was.
\<close>

theorem known_track_is_skipped:
  "(getCurrentTrack cd tk w = (Inr (Some track), w1) \<and> lookup history (trackKey track) \<longrightarrow>
      processCurrentTrack_H cd t tk history w =
        (None, history,
         emit (LogPrintf ''Track '%s' already processed. Skipping.'' [ArgS (trackKey track)])
           (emit (LogPrintf ''Current track: %s'' [ArgS (trackKey track)]) w1)) \<and>
      filter is_acquisition (trace (snd (snd (processCurrentTrack_H cd t tk history w)))) =
        filter is_acquisition (trace w) \<and>
      filter is_publish (trace (snd (snd (processCurrentTrack_H cd t tk history w)))) =
        filter is_publish (trace w) \<and>
      files (snd (snd (processCurrentTrack_H cd t tk history w))) = files w) \<and>
   (getCurrentPlaying_U cd tk w = (Inr song, w2) \<and>
    loadData cd dataFile (emit (LogPrintln (songKey song)) w2) = (Inr dataMap, w3) \<and>
    lookup dataMap (songKey song) \<longrightarrow>
      processCurrentPlayingSong cd tk bot_token chat_id ''true'' w =
        (None,
         emit (LogPrintf ''Song '%s' already exists in the database. Skipping download.''
                 [ArgS (songKey song)]) w3) \<and>
      filter is_acquisition
        (trace (snd (processCurrentPlayingSong cd tk bot_token chat_id ''true'' w))) =
        filter is_acquisition (trace w) \<and>
      filter is_publish
        (trace (snd (processCurrentPlayingSong cd tk bot_token chat_id ''true'' w))) =
        filter is_publish (trace w) \<and>
      files (snd (processCurrentPlayingSong cd tk bot_token chat_id ''true'' w)) = files w)"
proof (intro conjI impI)
  assume h: "getCurrentTrack cd tk w = (Inr (Some track), w1) \<and> lookup history (trackKey track)"
  then have w1: "w1 = snd (getCurrentTrack cd tk w)"
    by simp
  from h show res: "processCurrentTrack_H cd t tk history w =
        (None, history,
         emit (LogPrintf ''Track '%s' already processed. Skipping.'' [ArgS (trackKey track)])
           (emit (LogPrintf ''Current track: %s'' [ArgS (trackKey track)]) w1))"
    by (simp add: processCurrentTrack_H_def acquire_H_skip)
  show "filter is_acquisition (trace (snd (snd (processCurrentTrack_H cd t tk history w)))) =
        filter is_acquisition (trace w)"
    unfolding res w1 by (simp add: getCurrentTrack_filter)
  show "filter is_publish (trace (snd (snd (processCurrentTrack_H cd t tk history w)))) =
        filter is_publish (trace w)"
    unfolding res w1 by (simp add: getCurrentTrack_filter)
  show "files (snd (snd (processCurrentTrack_H cd t tk history w))) = files w"
    unfolding res w1 by simp
next
  assume h: "getCurrentPlaying_U cd tk w = (Inr song, w2) \<and>
    loadData cd dataFile (emit (LogPrintln (songKey song)) w2) = (Inr dataMap, w3) \<and>
    lookup dataMap (songKey song)"
  then have w2: "w2 = snd (getCurrentPlaying_U cd tk w)"
    and w3: "w3 = snd (loadData cd dataFile (emit (LogPrintln (songKey song)) w2))"
    by simp_all
  from h show res: "processCurrentPlayingSong cd tk bot_token chat_id ''true'' w =
        (None,
         emit (LogPrintf ''Song '%s' already exists in the database. Skipping download.''
                 [ArgS (songKey song)]) w3)"
    by (simp add: processCurrentPlayingSong_def acquire_U_def)
  show "filter is_acquisition
        (trace (snd (processCurrentPlayingSong cd tk bot_token chat_id ''true'' w))) =
        filter is_acquisition (trace w)"
    unfolding res w3 w2 by (simp add: getCurrentPlaying_U_filter)
  show "filter is_publish
        (trace (snd (processCurrentPlayingSong cd tk bot_token chat_id ''true'' w))) =
        filter is_publish (trace w)"
    unfolding res w3 w2 by (simp add: getCurrentPlaying_U_filter)
  show "files (snd (processCurrentPlayingSong cd tk bot_token chat_id ''true'' w)) = files w"
    unfolding res w3 w2 by simp
qed

lemma example_getCurrentPlaying_U:
  "tokenHTTP tk = Response 200 token_body \<Longrightarrow> playingHTTP tk = Response 200 playing_body \<Longrightarrow>
   fst (getCurrentPlaying_U codec0 tk w) = Inr song0"
  by (simp add: getCurrentPlaying_U_def getAccessToken_U_def split_beta codec0_def song0_def)

lemma example_songKey: "songKey song0 = ''Song A - Artist X''"
  by (simp add: songKey_def song0_def getArtists_def)

text \<open>
  The song of the example plays; the history of variant \<open>H\<close> and the history file of variant
  \<open>U\<close> have its key.
\<close>

theorem known_track_is_skipped_witness:
  "fst (getCurrentTrack codec0 tick_ok world0) = Inr (Some track0) \<and>
   lookup [''Song A - Artist X'' \<mapsto> True] (trackKey track0) \<and>
   fst (processCurrentTrack_H codec0 client0 tick_ok [''Song A - Artist X'' \<mapsto> True] world0)
     = None \<and>
   filter is_acquisition
     (trace (snd (snd (processCurrentTrack_H codec0 client0 tick_ok
        [''Song A - Artist X'' \<mapsto> True] world0)))) = [] \<and>
   filter is_publish
     (trace (snd (snd (processCurrentTrack_H codec0 client0 tick_ok
        [''Song A - Artist X'' \<mapsto> True] world0)))) = [] \<and>
   fst (getCurrentPlaying_U codec0 tick_ok world_hist) = Inr song0 \<and>
   fst (processCurrentPlayingSong codec0 tick_ok ''123:abc'' ''42'' ''true'' world_hist) = None \<and>
   filter is_acquisition
     (trace (snd (processCurrentPlayingSong codec0 tick_ok ''123:abc'' ''42'' ''true''
        world_hist))) = [] \<and>
   filter is_publish
     (trace (snd (processCurrentPlayingSong codec0 tick_ok ''123:abc'' ''42'' ''true''
        world_hist))) = []"
proof -
  let ?h = "[''Song A - Artist X'' \<mapsto> True]"
  let ?w1 = "snd (getCurrentTrack codec0 tick_ok world0)"
  let ?w2 = "snd (getCurrentPlaying_U codec0 tick_ok world_hist)"
  let ?w3 = "snd (loadData codec0 dataFile (emit (LogPrintln (songKey song0)) ?w2))"
  have tk: "tokenHTTP tick_ok = Response 200 token_body"
    "playingHTTP tick_ok = Response 200 playing_body"
    by (simp_all add: tick_ok_def)
  have g: "fst (getCurrentTrack codec0 tick_ok world0) = Inr (Some track0)"
    by (rule example_getCurrentTrack [OF tk])
  then have g': "getCurrentTrack codec0 tick_ok world0 = (Inr (Some track0), ?w1)"
    by (rule pairI)
  have l: "lookup ?h (trackKey track0)"
    by (simp add: example_trackKey lookup_def)
  have p: "fst (getCurrentPlaying_U codec0 tick_ok world_hist) = Inr song0"
    by (rule example_getCurrentPlaying_U [OF tk])
  then have p': "getCurrentPlaying_U codec0 tick_ok world_hist = (Inr song0, ?w2)"
    by (rule pairI)
  have "fst (loadData codec0 dataFile (emit (LogPrintln (songKey song0)) ?w2)) = Inr ?h"
    by (simp add: loadData_def split_beta os_Open_def world_hist_def dataFile_def codec0_def
        history_doc_def)
  then have d: "loadData codec0 dataFile (emit (LogPrintln (songKey song0)) ?w2) = (Inr ?h, ?w3)"
    by (rule pairI)
  have l': "lookup ?h (songKey song0)"
    by (simp add: example_songKey lookup_def)
  have t0: "trace world0 = []" "trace world_hist = []"
    by (simp_all add: world0_def world_hist_def)
  note K = known_track_is_skipped [where cd = codec0 and tk = tick_ok and w = world0
      and track = track0 and ?w1.0 = ?w1 and history = ?h and t = client0,
      THEN conjunct1, rule_format, OF conjI [OF g' l]]
  have H: "fst (processCurrentTrack_H codec0 client0 tick_ok ?h world0) = None"
    "filter is_acquisition
       (trace (snd (snd (processCurrentTrack_H codec0 client0 tick_ok ?h world0)))) = []"
    "filter is_publish
       (trace (snd (snd (processCurrentTrack_H codec0 client0 tick_ok ?h world0)))) = []"
    using K [THEN conjunct1] K [THEN conjunct2, THEN conjunct1]
      K [THEN conjunct2, THEN conjunct2, THEN conjunct1] t0
    by simp_all
  note L = known_track_is_skipped [where cd = codec0 and tk = tick_ok and w = world_hist
      and song = song0 and ?w2.0 = ?w2 and ?w3.0 = ?w3 and dataMap = ?h
      and bot_token = "''123:abc''" and chat_id = "''42''",
      THEN conjunct2, rule_format, OF conjI [OF p' conjI [OF d l']]]
  have U: "fst (processCurrentPlayingSong codec0 tick_ok ''123:abc'' ''42'' ''true'' world_hist)
      = None"
    "filter is_acquisition
       (trace (snd (processCurrentPlayingSong codec0 tick_ok ''123:abc'' ''42'' ''true''
          world_hist))) = []"
    "filter is_publish
       (trace (snd (processCurrentPlayingSong codec0 tick_ok ''123:abc'' ''42'' ''true''
          world_hist))) = []"
    using L [THEN conjunct1] L [THEN conjunct2, THEN conjunct1]
      L [THEN conjunct2, THEN conjunct2, THEN conjunct1] t0
    by simp_all
  from g l p H U show ?thesis
    by simp
qed

text \<open>
  Claim C9. When a cycle reaches the publish step, \<open>sendAudio\<close> succeeds and the save of the
  history that follows fails, the cycle returns no error, the failure is logged, the files
  are cleaned up as after a save that worked, and the history handed back to the loop maps
  the key of the track to true. It stays so through every later tick of the loop: no cycle
  unsets a key.
\<close>

theorem save_failure_is_not_fatal:
  assumes acq: "acquire_H cd tk history w = (Proceed (track, thumbnail), w1)"
    and pub: "sendAudio_H t tk audioFileName (Name track) (Join (Artists track) '', '')
                thumbnail w1 = (None, w2)"
    and save: "saveTrackHistory cd dataFileName (history(trackKey track \<mapsto> True)) w2
                = (Some e, w3)"
  shows "processCurrentTrack_H cd t tk history w =
           (None, history(trackKey track \<mapsto> True),
            (if thumbnail \<noteq> []
             then snd (os_Remove thumbnail (snd (os_Remove audioFileName
                    (emit (LogPrintf ''Error saving track history: %v'' [ArgW e]) w3))))
             else snd (os_Remove audioFileName
                    (emit (LogPrintf ''Error saving track history: %v'' [ArgW e]) w3)))) \<and>
         lookup (history(trackKey track \<mapsto> True)) (trackKey track) \<and>
         (\<forall>ticks w'.
            lookup (fst (run_loop_H cd t ticks (history(trackKey track \<mapsto> True)) w'))
              (trackKey track))"
proof -
  have l: "lookup (history(trackKey track \<mapsto> True)) (trackKey track)"
    by (simp add: lookup_def)
  from acq pub save l run_loop_H_keeps [OF l] show ?thesis
    by (simp add: processCurrentTrack_H_def Let_def)
qed

lemma example_save_denied:
  assumes "dataFileName \<in> noperm w"
  shows "fst (saveTrackHistory cd dataFileName history w) =
           Some (Errorf ''error creating file: %w''
                   [ArgW (PathError ''open'' dataFileName EACCES)])"
  using assms by (simp add: saveTrackHistory_def os_Create_def dataFileName_def)

text \<open>
  A cycle in a directory where the history file may not be written, and two more ticks after
  it.
\<close>

theorem save_failure_is_not_fatal_witness:
  "fst (acquire_H codec0 tick_ok Map.empty world_ro) = Proceed (track0, ''audio.mp3.jpg'') \<and>
   fst (saveTrackHistory codec0 dataFileName [trackKey track0 \<mapsto> True]
          (snd (sendAudio_H client0 tick_ok audioFileName (Name track0)
                  (Join (Artists track0) '', '') ''audio.mp3.jpg''
                  (snd (acquire_H codec0 tick_ok Map.empty world_ro))))) =
     Some (Errorf ''error creating file: %w'' [ArgW (PathError ''open'' dataFileName EACCES)]) \<and>
   fst (processCurrentTrack_H codec0 client0 tick_ok Map.empty world_ro) = None \<and>
   fst (snd (processCurrentTrack_H codec0 client0 tick_ok Map.empty world_ro)) =
     [trackKey track0 \<mapsto> True] \<and>
   lookup
     (fst (run_loop_H codec0 client0 [tick_fail, tick_ok] [trackKey track0 \<mapsto> True]
        (snd (snd (processCurrentTrack_H codec0 client0 tick_ok Map.empty world_ro)))))
     (trackKey track0)"
proof -
  let ?w1 = "snd (acquire_H codec0 tick_ok Map.empty world_ro)"
  let ?w2 = "snd (sendAudio_H client0 tick_ok audioFileName (Name track0)
               (Join (Artists track0) '', '') ''audio.mp3.jpg'' ?w1)"
  let ?h = "Map.empty(trackKey track0 \<mapsto> True)"
  let ?w3 = "snd (saveTrackHistory codec0 dataFileName ?h ?w2)"
  let ?e = "Errorf ''error creating file: %w'' [ArgW (PathError ''open'' dataFileName EACCES)]"
  have tk: "tokenHTTP tick_ok = Response 200 token_body"
    "playingHTTP tick_ok = Response 200 playing_body"
    "ytdlp tick_ok = (\<lambda>args. (None, [''audio.mp3'' \<mapsto> ''ID3'', ''audio.mp3.jpg'' \<mapsto> ''JFIF'']))"
    "telegramHTTP tick_ok = Response 200 sent_body"
    by (simp_all add: tick_ok_def)
  have c1: "fst (acquire_H codec0 tick_ok Map.empty world_ro) = Proceed (track0, ''audio.mp3.jpg'')"
    by (rule example_acquire_H [OF tk(1-3)])
  then have a: "acquire_H codec0 tick_ok Map.empty world_ro =
      (Proceed (track0, ''audio.mp3.jpg''), ?w1)"
    by (rule pairI)
  have f: "files ?w1 ''audio.mp3'' = Some ''ID3''" "files ?w1 ''audio.mp3.jpg'' = Some ''JFIF''"
    using acquire_H_files [OF a] by (simp_all add: tk world_ro_def)
  have n: "noperm ?w1 = {''data.json''}"
    by (simp add: world_ro_def)
  have "fst (sendAudio_H client0 tick_ok audioFileName (Name track0)
               (Join (Artists track0) '', '') ''audio.mp3.jpg'' ?w1) = None"
    using f n
    by (simp add: sendAudio_H_def split_beta os_Open_def thumbnailPart_def audioFileName_def tk)
  then have p: "sendAudio_H client0 tick_ok audioFileName (Name track0)
             (Join (Artists track0) '', '') ''audio.mp3.jpg'' ?w1 = (None, ?w2)"
    by (rule pairI)
  have "dataFileName \<in> noperm ?w2"
    by (simp add: world_ro_def dataFileName_def)
  from example_save_denied [OF this]
  have c2: "fst (saveTrackHistory codec0 dataFileName ?h ?w2) = Some ?e" .
  then have s: "saveTrackHistory codec0 dataFileName ?h ?w2 = (Some ?e, ?w3)"
    by (rule pairI)
  from save_failure_is_not_fatal [OF a p s]
  have res: "fst (processCurrentTrack_H codec0 client0 tick_ok Map.empty world_ro) = None"
    "fst (snd (processCurrentTrack_H codec0 client0 tick_ok Map.empty world_ro)) = ?h"
    and later: "\<And>ticks w'. lookup (fst (run_loop_H codec0 client0 ticks ?h w')) (trackKey track0)"
    by simp_all
  from c1 c2 res
    later [of "[tick_fail, tick_ok]"
      "snd (snd (processCurrentTrack_H codec0 client0 tick_ok Map.empty world_ro))"]
  show ?thesis
    by (simp del: run_loop_H.simps)
qed

section \<open>The publish step\<close>

lemma thumbnailPart_readable:
  "thumbnail = [] \<or> readable w thumbnail \<Longrightarrow>
   fst (thumbnailPart thumbnail w) =
     Inr (if thumbnail = [] then []
          else [FormFile ''thumbnail'' (Base thumbnail) (the (files w thumbnail))])"
  by (auto simp: thumbnailPart_def split_beta os_Open_readable)

lemma sendOrEditAudio_opened:
  assumes "readable w filePath" and "thumbnail = [] \<or> readable w thumbnail"
  shows "(fst (sendOrEditAudio cd t tk filePath title performer thumbnail w),
          fst (snd (sendOrEditAudio cd t tk filePath title performer thumbnail w))) =
         (case telegramHTTP tk of
            NewRequestError e \<Rightarrow> (Some (Errorf ''error creating request: %w'' [ArgW e]), t)
          | DoError e \<Rightarrow> (Some (Errorf ''error sending request: %w'' [ArgW e]), t)
          | Response status respBody \<Rightarrow>
              if status \<noteq> 200
              then (Some (Errorf ''unexpected status code %d: %s''
                            [ArgD status, ArgS respBody]), t)
              else
                (case decodeTelegram cd respBody of
                   Inl e \<Rightarrow> (Some (Errorf ''failed to decode message_id: %w'' [ArgW e]), t)
                 | Inr respData \<Rightarrow>
                     if \<not> Ok respData
                     then (Some (Errorf ''request failed: %s (error code: %d)''
                                   [ArgS (Description respData), ArgD (ErrorCode respData)]), t)
                     else (None, t\<lparr>messageID := Some (Result_MessageID respData)\<rparr>)))"
proof -
  from assms(2) have "thumbnail = [] \<or> readable (emit (OsOpen filePath) w) thumbnail"
    by simp
  from thumbnailPart_readable [OF this] os_Open_readable [OF assms(1)] show ?thesis
    by (simp add: sendOrEditAudio_def split_beta)
qed

lemma sendOrEditAudio_request:
  assumes "readable w filePath" and "thumbnail = [] \<or> readable w thumbnail"
    and "telegramHTTP tk = Response status respBody"
  shows "\<exists>rest. last (trace (snd (snd (sendOrEditAudio cd t tk filePath title performer
                                        thumbnail w)))) =
           (case messageID t of
              Some mid \<Rightarrow>
                HttpPostForm (telegramAPIBase_E (botToken t) ''editMessageMedia'')
                  (FormField ''chat_id'' (chatID t) # FormFieldD ''message_id'' mid # rest)
            | None \<Rightarrow>
                HttpPostForm (telegramAPIBase_E (botToken t) ''sendAudio'')
                  (FormField ''chat_id'' (chatID t) # rest))"
proof -
  from assms(2) have "thumbnail = [] \<or> readable (emit (OsOpen filePath) w) thumbnail"
    by simp
  from thumbnailPart_readable [OF this] os_Open_readable [OF assms(1)] assms(3) show ?thesis
    by (simp add: sendOrEditAudio_def split_beta client_Do_def requestHead_def
        split: option.splits)
qed

lemma sendAudio_H_opened:
  assumes "readable w filePath" and "thumbnail = [] \<or> readable w thumbnail"
  shows "fst (sendAudio_H t tk filePath title performer thumbnail w) =
         (case telegramHTTP tk of
            NewRequestError e \<Rightarrow> Some (Errorf ''error creating request: %w'' [ArgW e])
          | DoError e \<Rightarrow> Some (Errorf ''error sending request: %w'' [ArgW e])
          | Response status respBody \<Rightarrow>
              if status \<noteq> 200
              then Some (Errorf ''unexpected status code %d: %s'' [ArgD status, ArgS respBody])
              else None)"
proof -
  from assms(2) have "thumbnail = [] \<or> readable (emit (OsOpen filePath) w) thumbnail"
    by simp
  from thumbnailPart_readable [OF this] os_Open_readable [OF assms(1)] show ?thesis
    by (simp add: sendAudio_H_def split_beta)
qed

text \<open>
  Claim C7, as the code has it. Let the audio file, and the thumbnail if there is one, be
  readable, so that the request is built from them.
  \<^item> \<open>sendOrEditAudio\<close> (variant \<open>E\<close>) returns no error exactly when a response with status 200
    comes back whose body decodes to a response with the \<open>ok\<close> flag set; it then remembers the
    message id of the response. When it returns an error the remembered id is unchanged.
  \<^item> \<open>sendAudio\<close> of variant \<open>H\<close> returns no error exactly when a response with status 200
    comes back; it does not decode the body, and there is no \<open>ok\<close> flag to look at.
  \<^item> In both, a status other than 200 gives the error "unexpected status code" with the
    status and the body, and a transport error gives "error sending request" wrapping it. In
    variant \<open>E\<close> a decoded response that is not ok gives the error "request failed" with the
    description and the error code of the response.
  \<^item> A client of variant \<open>E\<close> that remembers a message id posts to \<open>editMessageMedia\<close> with
    that id; one that remembers none posts to \<open>sendAudio\<close>.
\<close>

theorem publish_outcome:
  assumes "readable w filePath" and "thumbnail = [] \<or> readable w thumbnail"
  shows
    "(fst (sendOrEditAudio cd t tk filePath title performer thumbnail w) = None \<longleftrightarrow>
        (\<exists>respBody respData. telegramHTTP tk = Response 200 respBody \<and>
           decodeTelegram cd respBody = Inr respData \<and> Ok respData)) \<and>
     (\<forall>respBody respData.
        telegramHTTP tk = Response 200 respBody \<and> decodeTelegram cd respBody = Inr respData \<and>
        Ok respData \<longrightarrow>
        fst (snd (sendOrEditAudio cd t tk filePath title performer thumbnail w)) =
          t\<lparr>messageID := Some (Result_MessageID respData)\<rparr>) \<and>
     (fst (sendOrEditAudio cd t tk filePath title performer thumbnail w) \<noteq> None \<longrightarrow>
        fst (snd (sendOrEditAudio cd t tk filePath title performer thumbnail w)) = t) \<and>
     (fst (sendAudio_H t_H tk filePath title performer thumbnail w) = None \<longleftrightarrow>
        (\<exists>respBody. telegramHTTP tk = Response 200 respBody)) \<and>
     (\<forall>status respBody. telegramHTTP tk = Response status respBody \<and> status \<noteq> 200 \<longrightarrow>
        fst (sendOrEditAudio cd t tk filePath title performer thumbnail w) =
          Some (Errorf ''unexpected status code %d: %s'' [ArgD status, ArgS respBody]) \<and>
        fst (sendAudio_H t_H tk filePath title performer thumbnail w) =
          Some (Errorf ''unexpected status code %d: %s'' [ArgD status, ArgS respBody])) \<and>
     (\<forall>e. telegramHTTP tk = DoError e \<longrightarrow>
        fst (sendOrEditAudio cd t tk filePath title performer thumbnail w) =
          Some (Errorf ''error sending request: %w'' [ArgW e]) \<and>
        fst (sendAudio_H t_H tk filePath title performer thumbnail w) =
          Some (Errorf ''error sending request: %w'' [ArgW e])) \<and>
     (\<forall>respBody respData.
        telegramHTTP tk = Response 200 respBody \<and> decodeTelegram cd respBody = Inr respData \<and>
        \<not> Ok respData \<longrightarrow>
        fst (sendOrEditAudio cd t tk filePath title performer thumbnail w) =
          Some (Errorf ''request failed: %s (error code: %d)''
                  [ArgS (Description respData), ArgD (ErrorCode respData)])) \<and>
     (\<forall>status respBody. telegramHTTP tk = Response status respBody \<longrightarrow>
        (\<exists>rest. last (trace (snd (snd (sendOrEditAudio cd t tk filePath title performer
                                         thumbnail w)))) =
           (case messageID t of
              Some mid \<Rightarrow>
                HttpPostForm (telegramAPIBase_E (botToken t) ''editMessageMedia'')
                  (FormField ''chat_id'' (chatID t) # FormFieldD ''message_id'' mid # rest)
            | None \<Rightarrow>
                HttpPostForm (telegramAPIBase_E (botToken t) ''sendAudio'')
                  (FormField ''chat_id'' (chatID t) # rest))))"
proof -
  note E = sendOrEditAudio_opened [OF assms, of cd t tk title performer]
  note H = sendAudio_H_opened [OF assms, of t_H tk title performer]
  have e1: "fst (sendOrEditAudio cd t tk filePath title performer thumbnail w) = None \<longleftrightarrow>
        (\<exists>respBody respData. telegramHTTP tk = Response 200 respBody \<and>
           decodeTelegram cd respBody = Inr respData \<and> Ok respData)"
    using E by (auto split: http_outcome.splits sum.splits if_splits)
  have e2: "fst (snd (sendOrEditAudio cd t tk filePath title performer thumbnail w)) =
          t\<lparr>messageID := Some (Result_MessageID respData)\<rparr>"
    if "telegramHTTP tk = Response 200 respBody \<and> decodeTelegram cd respBody = Inr respData \<and>
        Ok respData" for respBody respData
    using E that by simp
  have e3: "fst (sendOrEditAudio cd t tk filePath title performer thumbnail w) \<noteq> None \<longrightarrow>
        fst (snd (sendOrEditAudio cd t tk filePath title performer thumbnail w)) = t"
    using E by (auto split: http_outcome.splits sum.splits if_splits)
  have h1: "fst (sendAudio_H t_H tk filePath title performer thumbnail w) = None \<longleftrightarrow>
        (\<exists>respBody. telegramHTTP tk = Response 200 respBody)"
    using H by (auto split: http_outcome.splits if_splits)
  have s: "fst (sendOrEditAudio cd t tk filePath title performer thumbnail w) =
          Some (Errorf ''unexpected status code %d: %s'' [ArgD status, ArgS respBody]) \<and>
        fst (sendAudio_H t_H tk filePath title performer thumbnail w) =
          Some (Errorf ''unexpected status code %d: %s'' [ArgD status, ArgS respBody])"
    if "telegramHTTP tk = Response status respBody \<and> status \<noteq> 200" for status respBody
    using E H that by simp
  have d: "fst (sendOrEditAudio cd t tk filePath title performer thumbnail w) =
          Some (Errorf ''error sending request: %w'' [ArgW e]) \<and>
        fst (sendAudio_H t_H tk filePath title performer thumbnail w) =
          Some (Errorf ''error sending request: %w'' [ArgW e])"
    if "telegramHTTP tk = DoError e" for e
    using E H that by simp
  have n: "fst (sendOrEditAudio cd t tk filePath title performer thumbnail w) =
          Some (Errorf ''request failed: %s (error code: %d)''
                  [ArgS (Description respData), ArgD (ErrorCode respData)])"
    if "telegramHTTP tk = Response 200 respBody \<and> decodeTelegram cd respBody = Inr respData \<and>
        \<not> Ok respData" for respBody respData
    using E that by simp
  note r = sendOrEditAudio_request [OF assms, of tk _ _ cd t title performer]
  from e1 e2 e3 h1 s d n r show ?thesis
    by blast
qed

text \<open>
  The audio file of the example without a thumbnail, sent on the ticks where Telegram accepts
  the upload, answers 200 with \<open>"ok":false\<close>, and answers 502.
\<close>

theorem publish_outcome_witness:
  "readable world_audio ''audio.mp3'' \<and>
   fst (sendOrEditAudio codec0 client0_E tick_ok ''audio.mp3'' ''Song A'' ''Artist X'' []
          world_audio) = None \<and>
   fst (snd (sendOrEditAudio codec0 client0_E tick_ok ''audio.mp3'' ''Song A'' ''Artist X'' []
          world_audio)) = client0_E\<lparr>messageID := Some 7\<rparr> \<and>
   fst (sendOrEditAudio codec0 client0_E tick_notok ''audio.mp3'' ''Song A'' ''Artist X'' []
          world_audio) =
     Some (Errorf ''request failed: %s (error code: %d)'' [ArgS ''Bad Request'', ArgD 400]) \<and>
   fst (sendOrEditAudio codec0 client0_E tick_fail ''audio.mp3'' ''Song A'' ''Artist X'' []
          world_audio) =
     Some (Errorf ''unexpected status code %d: %s'' [ArgD 502, ArgS ''Bad Gateway'']) \<and>
   fst (sendAudio_H client0 tick_ok ''audio.mp3'' ''Song A'' ''Artist X'' [] world_audio) = None"
proof -
  have r: "readable world_audio ''audio.mp3''"
    by (simp add: readable_def world_audio_def)
  have t: "[] = [] \<or> readable world_audio []"
    by simp
  have tk: "telegramHTTP tick_ok = Response 200 sent_body"
    "telegramHTTP tick_notok = Response 200 notok_body"
    "telegramHTTP tick_fail = Response 502 ''Bad Gateway''"
    by (simp_all add: tick_ok_def tick_notok_def tick_fail_def)
  have d: "decodeTelegram codec0 sent_body =
      Inr \<lparr>Ok = True, Result_MessageID = 7, Description = [], ErrorCode = 0\<rparr>"
    "decodeTelegram codec0 notok_body =
      Inr \<lparr>Ok = False, Result_MessageID = 0, Description = ''Bad Request'', ErrorCode = 400\<rparr>"
    by (simp_all add: codec0_def sent_body_def notok_body_def)
  note ok = publish_outcome [OF r t, where cd = codec0 and t = client0_E and tk = tick_ok
      and title = "''Song A''" and performer = "''Artist X''" and t_H = client0]
  note notok = publish_outcome [OF r t, where cd = codec0 and t = client0_E and tk = tick_notok
      and title = "''Song A''" and performer = "''Artist X''" and t_H = client0]
  note fail = publish_outcome [OF r t, where cd = codec0 and t = client0_E and tk = tick_fail
      and title = "''Song A''" and performer = "''Artist X''" and t_H = client0]
  have c1: "fst (sendOrEditAudio codec0 client0_E tick_ok ''audio.mp3'' ''Song A'' ''Artist X'' []
          world_audio) = None"
    using ok [THEN conjunct1] tk(1) d(1) by simp
  have c2: "fst (snd (sendOrEditAudio codec0 client0_E tick_ok ''audio.mp3'' ''Song A''
          ''Artist X'' [] world_audio)) = client0_E\<lparr>messageID := Some 7\<rparr>"
    using ok [THEN conjunct2, THEN conjunct1, rule_format, OF conjI [OF tk(1) conjI [OF d(1)]]]
    by simp
  have c3: "fst (sendOrEditAudio codec0 client0_E tick_notok ''audio.mp3'' ''Song A''
          ''Artist X'' [] world_audio) =
     Some (Errorf ''request failed: %s (error code: %d)'' [ArgS ''Bad Request'', ArgD 400])"
    using notok [THEN conjunct2, THEN conjunct2, THEN conjunct2, THEN conjunct2, THEN conjunct2,
        THEN conjunct2, THEN conjunct1, rule_format, OF conjI [OF tk(2) conjI [OF d(2)]]]
    by simp
  have c4: "fst (sendOrEditAudio codec0 client0_E tick_fail ''audio.mp3'' ''Song A''
          ''Artist X'' [] world_audio) =
     Some (Errorf ''unexpected status code %d: %s'' [ArgD 502, ArgS ''Bad Gateway''])"
    using fail [THEN conjunct2, THEN conjunct2, THEN conjunct2, THEN conjunct2, THEN conjunct1,
        rule_format, OF conjI [OF tk(3)]]
    by simp
  have c5: "fst (sendAudio_H client0 tick_ok ''audio.mp3'' ''Song A'' ''Artist X'' []
      world_audio) = None"
    using ok [THEN conjunct2, THEN conjunct2, THEN conjunct2, THEN conjunct1] tk(1) by simp
  from r c1 c2 c3 c4 c5 show ?thesis
    by simp
qed

text \<open>
  Claim C7 as stated fails in variant \<open>H\<close>: on a response with status 200 whose body says
  \<open>"ok":false\<close>, \<open>sendAudio\<close> returns no error.
\<close>

theorem sendAudio_ignores_ok_flag:
  "telegramHTTP tick_notok = Response 200 notok_body \<and>
   map_sum (\<lambda>e. e) Ok (decodeTelegram codec0 notok_body) = Inr False \<and>
   fst (sendAudio_H client0 tick_notok ''audio.mp3'' ''Song A'' ''Artist X'' [] world_audio) = None"
  by (simp add: tick_notok_def tick_ok_def codec0_def notok_body_def sent_body_def
      sendAudio_H_def split_beta os_Open_def thumbnailPart_def world_audio_def)

section \<open>Cleaning up after a publish\<close>



lemma acquire_U_filter:
  assumes "\<And>m u. \<not> P (HttpDo m u)" and "\<And>s. \<not> P (LogPrintln s)"
    and "\<And>f a. \<not> P (LogPrintf f a)" and "\<And>p. \<not> P (OsStat p)"
    and "\<And>c a. \<not> P (Exec c a)" and "\<And>p. \<not> P (OsOpen p)"
  shows "filter P (trace (snd (acquire_U cd tk upload w))) = filter P (trace w)"
  using assms
  by (simp add: acquire_U_def split_beta getCurrentPlaying_U_filter
      downloadFromYouTube_U_filter getThumbnail_U_filter split: sum.splits option.splits)



lemma addFileToWriter_readable:
  "readable w filePath \<Longrightarrow>
   fst (addFileToWriter fieldName filePath w) =
     Inr (FormFile fieldName filePath (the (files w filePath)))"
  by (simp add: addFileToWriter_def split_beta os_Open_readable)


lemma removeUploaded_snd:
  "snd (removeUploaded filePath thumbnail w) =
     (case fst (os_Remove filePath w) of
        Some e \<Rightarrow> snd (os_Remove filePath w)
      | None \<Rightarrow> snd (os_Remove thumbnail (snd (os_Remove filePath w))))"
  by (simp add: removeUploaded_def split_beta split: option.splits)

lemma removeUploaded_fst:
  "fst (removeUploaded filePath thumbnail w) =
     (case fst (os_Remove filePath w) of
        Some e \<Rightarrow> Some e
      | None \<Rightarrow> fst (os_Remove thumbnail (snd (os_Remove filePath w))))"
  by (simp add: removeUploaded_def split_beta split: option.splits)

lemma removeUploaded_noperm [simp]:
  "noperm (snd (removeUploaded filePath thumbnail w)) = noperm w"
  by (simp add: removeUploaded_snd split: option.splits)

lemma removeUploaded_filter:
  "(\<And>p. \<not> P (OsRemove p)) \<Longrightarrow>
   filter P (trace (snd (removeUploaded filePath thumbnail w))) = filter P (trace w)"
  by (simp add: removeUploaded_snd split: option.splits)

lemma removeUploaded_files_other:
  "p \<noteq> filePath \<Longrightarrow> p \<noteq> thumbnail \<Longrightarrow>
   files (snd (removeUploaded filePath thumbnail w)) p = files w p"
  by (simp add: removeUploaded_snd os_Remove_files_other split: option.splits)


lemma os_Remove_exists:
  "name \<noteq> [] \<Longrightarrow> files w name \<noteq> None \<Longrightarrow> fst (os_Remove name w) = None"
  by (auto simp: os_Remove_def)

lemma removeUploaded_existing:
  assumes "filePath \<noteq> []" and "files w filePath \<noteq> None"
  shows "files (snd (removeUploaded filePath thumbnail w)) filePath = None \<and>
         (thumbnail \<noteq> [] \<longrightarrow> files (snd (removeUploaded filePath thumbnail w)) thumbnail = None) \<and>
         (thumbnail = [] \<longrightarrow>
            fst (removeUploaded filePath thumbnail w) = Some (PathError ''remove'' [] ENOENT))"
  using assms
  by (simp add: removeUploaded_snd removeUploaded_fst os_Remove_exists os_Remove_files_same
      os_Remove_files_None os_Remove_empty)









lemma acquire_U_files:
  assumes "acquire_U cd tk upload w = (Proceed (song, artists, dataMap, thumbnail), w1)"
  shows "files w1 = files w ++
           snd (ytdlp tk [''-x'', ''--audio-format'', ''mp3'', ''--write-thumbnail'', ''-o'',
                          audioFile,
                          ''ytsearch1:'' @ Item_Name song @ '' '' @
                            getArtists (Item_Artists song)]) \<and>
         noperm w1 = noperm w"
  using assms
  by (auto simp: acquire_U_def split_beta downloadFromYouTube_U_def Let_def
      split: sum.splits option.splits if_splits)

lemma acquire_E_noperm [simp]: "noperm (snd (acquire_E cd tk w)) = noperm w"
  by (simp add: acquire_E_def split_beta split: sum.splits option.splits)


section \<open>Variant \<open>U\<close>: a download without a thumbnail\<close>

lemma sendAudio_U_noperm [simp]:
  "noperm (snd (sendAudio_U tk token chat_id filePath title performer thumbnail w)) = noperm w"
  by (simp add: sendAudio_U_def split_beta Let_def split: sum.splits http_outcome.splits)

lemma sendAudio_U_filter:
  "(\<And>p. \<not> P (OsOpen p)) \<Longrightarrow> (\<And>u b. \<not> P (HttpPostForm u b)) \<Longrightarrow> (\<And>p. \<not> P (OsRemove p)) \<Longrightarrow>
   filter P (trace (snd (sendAudio_U tk token chat_id filePath title performer thumbnail w)))
     = filter P (trace w)"
  by (simp add: sendAudio_U_def split_beta Let_def removeUploaded_filter
      split: sum.splits http_outcome.splits)

lemma sendAudio_U_files_other:
  "p \<noteq> filePath \<Longrightarrow> p \<noteq> thumbnail \<Longrightarrow>
   files (snd (sendAudio_U tk token chat_id filePath title performer thumbnail w)) p = files w p"
  by (simp add: sendAudio_U_def split_beta Let_def removeUploaded_files_other
      split: sum.splits http_outcome.splits)

lemma removeUploaded_no_thumbnail: "\<exists>e. fst (removeUploaded filePath [] w) = Some e"
  by (simp add: removeUploaded_fst os_Remove_empty split: option.splits)

lemma sendAudio_U_no_thumbnail:
  "fst (sendAudio_U tk token chat_id filePath title performer [] w) \<noteq> None"
  by (simp add: sendAudio_U_def split_beta Let_def removeUploaded_no_thumbnail
      split: sum.splits http_outcome.splits)

lemma sendAudio_U_no_thumbnail_200:
  assumes "readable w filePath" and "telegramHTTP tk = Response 200 respBody"
  shows "fst (sendAudio_U tk token chat_id filePath title performer [] w) =
           Some (PathError ''remove'' [] ENOENT) \<and>
         filter is_publish
           (trace (snd (sendAudio_U tk token chat_id filePath title performer [] w))) =
           filter is_publish (trace w) @
           [HttpPostForm (''https://api.telegram.org/bot'' @ token @ ''/sendAudio'')
              [FormFile ''audio'' filePath (the (files w filePath)),
               FormField ''chat_id'' chat_id, FormField ''title'' title,
               FormField ''performer'' performer]]"
proof -
  from assms(1) have p: "filePath \<noteq> []" "files w filePath \<noteq> None"
    by (simp_all add: readable_def)
  have r: "fst (removeUploaded filePath [] (emit e (emit (OsOpen filePath) w))) =
      Some (PathError ''remove'' [] ENOENT)" for e
    using removeUploaded_existing [OF p(1), of "emit e (emit (OsOpen filePath) w)" "[]"] p(2)
    by simp
  show ?thesis
    using r assms(2)
    by (simp add: sendAudio_U_def split_beta Let_def addFileToWriter_readable [OF assms(1)]
        thumbnailPart_U_def client_Do_def removeUploaded_filter)
qed

lemma loadData_fst_cong:
  assumes "files w' filename = files w filename"
    and "filename \<in> noperm w' \<longleftrightarrow> filename \<in> noperm w"
  shows "fst (loadData cd filename w') = fst (loadData cd filename w)"
  using assms
  by (simp add: loadData_def os_Open_def split_beta split: option.splits sum.splits)

lemma acquire_U_no_thumbnail:
  assumes acq: "acquire_U cd tk upload w = (Proceed (song, artists, dataMap, []), w1)"
  shows "(\<exists>e. fst (processCurrentPlayingSong cd tk bot_token chat_id upload w) =
            Some (Errorf ''failed to upload to Telegram: %w'' [ArgW e])) \<and>
         filter is_create (trace (snd (processCurrentPlayingSong cd tk bot_token chat_id upload w)))
           = filter is_create (trace w) \<and>
         files (snd (processCurrentPlayingSong cd tk bot_token chat_id upload w)) dataFile
           = files w1 dataFile"
proof -
  let ?s = "sendAudio_U tk bot_token chat_id audioFile (Item_Name song) artists [] w1"
  from sendAudio_U_no_thumbnail [of tk bot_token chat_id audioFile "Item_Name song" artists w1]
  obtain e where e: "fst ?s = Some e"
    by blast
  with acq have res: "processCurrentPlayingSong cd tk bot_token chat_id upload w =
      (Some (Errorf ''failed to upload to Telegram: %w'' [ArgW e]), snd ?s)"
    by (simp add: processCurrentPlayingSong_def split_beta)
  have w1: "w1 = snd (acquire_U cd tk upload w)"
    using acq by simp
  have "filter is_create (trace (snd ?s)) = filter is_create (trace w1)"
    by (simp add: sendAudio_U_filter)
  also have "\<dots> = filter is_create (trace w)"
    unfolding w1 by (simp add: acquire_U_filter)
  finally have c: "filter is_create (trace (snd ?s)) = filter is_create (trace w)" .
  have f: "files (snd ?s) dataFile = files w1 dataFile"
    by (simp add: sendAudio_U_files_other dataFile_def audioFile_def)
  from res c f show ?thesis
    by simp
qed

text \<open>One cycle on a tick that plays the song without a thumbnail.\<close>

lemma stuck_cycle:
  assumes st: "plays_without_thumbnail cd song tk"
    and jpg: "files w (audioFile @ ''.jpg'') = None"
    and webp: "files w (audioFile @ ''.webp'') = None"
    and perm: "audioFile \<notin> noperm w"
    and load: "fst (loadData cd dataFile w) = Inr dataMap"
    and unset: "\<not> lookup dataMap (songKey song)"
  shows "fst (processCurrentPlayingSong cd tk bot_token chat_id ''true'' w) =
           Some (Errorf ''failed to upload to Telegram: %w''
                   [ArgW (PathError ''remove'' [] ENOENT)])" (is "?A")
    and "files (snd (processCurrentPlayingSong cd tk bot_token chat_id ''true'' w))
           (audioFile @ ''.jpg'') = None" (is "?B")
    and "files (snd (processCurrentPlayingSong cd tk bot_token chat_id ''true'' w))
           (audioFile @ ''.webp'') = None" (is "?C")
    and "noperm (snd (processCurrentPlayingSong cd tk bot_token chat_id ''true'' w)) = noperm w"
      (is "?D")
    and "files (snd (processCurrentPlayingSong cd tk bot_token chat_id ''true'' w)) dataFile =
           files w dataFile" (is "?E")
    and "length (filter is_acquisition
           (trace (snd (processCurrentPlayingSong cd tk bot_token chat_id ''true'' w)))) =
         Suc (length (filter is_acquisition (trace w)))" (is "?F")
    and "length (filter is_publish
           (trace (snd (processCurrentPlayingSong cd tk bot_token chat_id ''true'' w)))) =
         Suc (length (filter is_publish (trace w)))" (is "?G")
    and "filter is_create
           (trace (snd (processCurrentPlayingSong cd tk bot_token chat_id ''true'' w))) =
         filter is_create (trace w)" (is "?H")
proof -
  let ?args = "[''-x'', ''--audio-format'', ''mp3'', ''--write-thumbnail'', ''-o'', audioFile,
      ''ytsearch1:'' @ Item_Name song @ '' '' @ getArtists (Item_Artists song)]"
  let ?artists = "getArtists (Item_Artists song)"
  from st obtain tbody pbody rbody where
    tok: "tokenHTTP tk = Response 200 tbody" "\<not> isl (decodeToken cd tbody)"
    and play: "playingHTTP tk = Response 200 pbody" "decodeSong cd pbody = Inr song"
    and tg: "telegramHTTP tk = Response 200 rbody"
    by (auto simp: plays_without_thumbnail_def split: http_outcome.splits)
  from tok(2) obtain token where tok': "decodeToken cd tbody = Inr token"
    by (cases "decodeToken cd tbody") auto
  from st have yt: "fst (ytdlp tk ?args) = None" "snd (ytdlp tk ?args) audioFile \<noteq> None"
    "snd (ytdlp tk ?args) (audioFile @ ''.jpg'') = None"
    "snd (ytdlp tk ?args) (audioFile @ ''.webp'') = None"
    "snd (ytdlp tk ?args) dataFile = None"
    by (simp_all add: plays_without_thumbnail_def split_beta)
  have g: "fst (getCurrentPlaying_U cd tk w) = Inr song"
    using tok(1) tok' play
    by (simp add: getCurrentPlaying_U_def getAccessToken_U_def split_beta)
  have l: "fst (loadData cd dataFile
             (emit (LogPrintln (songKey song)) (snd (getCurrentPlaying_U cd tk w)))) =
           Inr dataMap"
    using load loadData_fst_cong [of "emit (LogPrintln (songKey song))
        (snd (getCurrentPlaying_U cd tk w))" dataFile w cd]
    by simp
  define w1 where "w1 = snd (acquire_U cd tk ''true'' w)"
  have "fst (acquire_U cd tk ''true'' w) = Proceed (song, ?artists, dataMap, [])"
    using g l unset yt jpg webp
    by (simp add: acquire_U_def split_beta downloadFromYouTube_U_def Let_def
        getThumbnail_U_def os_Stat_def map_add_def split: option.splits)
  then have acq: "acquire_U cd tk ''true'' w = (Proceed (song, ?artists, dataMap, []), w1)"
    unfolding w1_def by (rule pairI)
  from acquire_U_files [OF acq] have f1: "files w1 = files w ++ snd (ytdlp tk ?args)"
    and n1: "noperm w1 = noperm w"
    by simp_all
  have a1: "filter is_acquisition (trace w1) =
      filter is_acquisition (trace w) @ [Exec ''yt-dlp'' ?args]"
    using g l unset yt jpg webp unfolding w1_def
    by (simp add: acquire_U_def split_beta downloadFromYouTube_U_def Let_def
        getThumbnail_U_filter getCurrentPlaying_U_filter split: sum.splits)
  have p1: "filter is_publish (trace w1) = filter is_publish (trace w)"
    and c1: "filter is_create (trace w1) = filter is_create (trace w)"
    unfolding w1_def by (simp_all add: acquire_U_filter)
  have r: "readable w1 audioFile"
    using yt(2) perm by (auto simp: readable_def f1 n1 map_add_def split: option.splits)
  define w2 where
    "w2 = snd (sendAudio_U tk bot_token chat_id audioFile (Item_Name song) ?artists [] w1)"
  note s = sendAudio_U_no_thumbnail_200 [OF r tg, of bot_token chat_id "Item_Name song" ?artists]
  from s have "sendAudio_U tk bot_token chat_id audioFile (Item_Name song) ?artists [] w1 =
      (Some (PathError ''remove'' [] ENOENT), w2)"
    unfolding w2_def by (intro pairI) simp
  with acq have res: "processCurrentPlayingSong cd tk bot_token chat_id ''true'' w =
      (Some (Errorf ''failed to upload to Telegram: %w''
               [ArgW (PathError ''remove'' [] ENOENT)]), w2)"
    by (simp add: processCurrentPlayingSong_def)
  have other: "files w2 p = files w1 p" if "p \<noteq> audioFile" "p \<noteq> []" for p
    unfolding w2_def using that by (simp add: sendAudio_U_files_other)
  show ?A
    using res by simp
  show ?B
    using other [of "audioFile @ ''.jpg''"] jpg yt(3)
    by (simp add: res f1 map_add_def audioFile_def)
  show ?C
    using other [of "audioFile @ ''.webp''"] webp yt(4)
    by (simp add: res f1 map_add_def audioFile_def)
  show ?D
    by (simp add: res w2_def n1)
  show ?E
    using other [of dataFile] yt(5)
    by (simp add: res f1 map_add_def audioFile_def dataFile_def)
  show ?F
    by (simp add: res w2_def sendAudio_U_filter a1)
  show ?G
    using s by (simp add: res w2_def p1)
  show ?H
    by (simp add: res w2_def sendAudio_U_filter c1)
qed

lemma stuck_loop:
  assumes "\<forall>tk \<in> set ticks. plays_without_thumbnail cd song tk"
    and "files w (audioFile @ ''.jpg'') = None"
    and "files w (audioFile @ ''.webp'') = None"
    and "audioFile \<notin> noperm w"
    and "fst (loadData cd dataFile w) = Inr dataMap"
    and "\<not> lookup dataMap (songKey song)"
  shows "length (filter is_acquisition
           (trace (main_loop_U cd bot_token chat_id ''true'' ticks w))) =
           length (filter is_acquisition (trace w)) + length ticks \<and>
         length (filter is_publish
           (trace (main_loop_U cd bot_token chat_id ''true'' ticks w))) =
           length (filter is_publish (trace w)) + length ticks \<and>
         filter is_create (trace (main_loop_U cd bot_token chat_id ''true'' ticks w)) =
           filter is_create (trace w) \<and>
         files (main_loop_U cd bot_token chat_id ''true'' ticks w) dataFile = files w dataFile"
  using assms
proof (induction ticks arbitrary: w)
  case Nil
  then show ?case by simp
next
  case (Cons tk ticks)
  let ?r = "processCurrentPlayingSong cd tk bot_token chat_id ''true'' w"
  let ?e = "Errorf ''failed to upload to Telegram: %w'' [ArgW (PathError ''remove'' [] ENOENT)]"
  let ?w' = "emit (LogError ?e) (snd ?r)"
  from Cons.prems have st: "plays_without_thumbnail cd song tk"
    and rest: "\<forall>tk \<in> set ticks. plays_without_thumbnail cd song tk"
    by simp_all
  note c = stuck_cycle [OF st Cons.prems(2-6), of bot_token chat_id]
  have step: "main_loop_U cd bot_token chat_id ''true'' (tk # ticks) w =
      main_loop_U cd bot_token chat_id ''true'' ticks ?w'"
    using c(1) by (simp add: split_beta)
  have "fst (loadData cd dataFile ?w') = fst (loadData cd dataFile w)"
    by (rule loadData_fst_cong) (simp_all add: c)
  with Cons.prems have l: "fst (loadData cd dataFile ?w') = Inr dataMap"
    by simp
  have IH: "length (filter is_acquisition
           (trace (main_loop_U cd bot_token chat_id ''true'' ticks ?w'))) =
           length (filter is_acquisition (trace ?w')) + length ticks \<and>
         length (filter is_publish
           (trace (main_loop_U cd bot_token chat_id ''true'' ticks ?w'))) =
           length (filter is_publish (trace ?w')) + length ticks \<and>
         filter is_create (trace (main_loop_U cd bot_token chat_id ''true'' ticks ?w')) =
           filter is_create (trace ?w') \<and>
         files (main_loop_U cd bot_token chat_id ''true'' ticks ?w') dataFile =
           files ?w' dataFile"
    using Cons.prems(4,6) by (intro Cons.IH rest l) (simp_all add: c)
  show ?case
    unfolding step using IH by (simp add: c)
qed

text \<open>
  Claim C10. In variant \<open>U\<close>, \<open>sendAudio\<close> called with the empty thumbnail path never
  returns without an error; when the audio file is readable and Telegram answers 200 the
  error is that of removing the path \<open>""\<close>. A cycle that found no thumbnail therefore
  returns the error "failed to upload to Telegram", never calls \<open>os.Create\<close>, and leaves the
  history file as it was before the publish step. Hence, over any run of ticks on which the
  song plays, the downloader writes no thumbnail and Telegram answers 200, started where
  the history file does not have the key of the song: every tick runs the downloader and
  posts to Telegram once more, and the history file is never written.
\<close>

theorem missing_thumbnail_never_succeeds:
  "fst (sendAudio_U tk bot_token chat_id filePath title performer [] w) \<noteq> None \<and>
   (readable w filePath \<and> telegramHTTP tk = Response 200 respBody \<longrightarrow>
      fst (sendAudio_U tk bot_token chat_id filePath title performer [] w) =
        Some (PathError ''remove'' [] ENOENT)) \<and>
   (acquire_U cd tk upload w = (Proceed (song, artists, dataMap, []), w1) \<longrightarrow>
      (\<exists>e. fst (processCurrentPlayingSong cd tk bot_token chat_id upload w) =
         Some (Errorf ''failed to upload to Telegram: %w'' [ArgW e])) \<and>
      filter is_create (trace (snd (processCurrentPlayingSong cd tk bot_token chat_id upload w)))
        = filter is_create (trace w) \<and>
      files (snd (processCurrentPlayingSong cd tk bot_token chat_id upload w)) dataFile
        = files w1 dataFile) \<and>
   ((\<forall>tk' \<in> set ticks. plays_without_thumbnail cd song tk') \<and>
    files w (audioFile @ ''.jpg'') = None \<and> files w (audioFile @ ''.webp'') = None \<and>
    audioFile \<notin> noperm w \<and>
    fst (loadData cd dataFile w) = Inr dataMap \<and> \<not> lookup dataMap (songKey song) \<longrightarrow>
      length (filter is_acquisition
        (trace (main_loop_U cd bot_token chat_id ''true'' ticks w))) =
        length (filter is_acquisition (trace w)) + length ticks \<and>
      length (filter is_publish
        (trace (main_loop_U cd bot_token chat_id ''true'' ticks w))) =
        length (filter is_publish (trace w)) + length ticks \<and>
      filter is_create (trace (main_loop_U cd bot_token chat_id ''true'' ticks w)) =
        filter is_create (trace w) \<and>
      files (main_loop_U cd bot_token chat_id ''true'' ticks w) dataFile = files w dataFile)"
proof (intro conjI)
  show "fst (sendAudio_U tk bot_token chat_id filePath title performer [] w) \<noteq> None"
    by (rule sendAudio_U_no_thumbnail)
  show "readable w filePath \<and> telegramHTTP tk = Response 200 respBody \<longrightarrow>
      fst (sendAudio_U tk bot_token chat_id filePath title performer [] w) =
        Some (PathError ''remove'' [] ENOENT)"
    using sendAudio_U_no_thumbnail_200 [of w filePath tk respBody bot_token chat_id title
        performer]
    by simp
  show "acquire_U cd tk upload w = (Proceed (song, artists, dataMap, []), w1) \<longrightarrow>
      (\<exists>e. fst (processCurrentPlayingSong cd tk bot_token chat_id upload w) =
         Some (Errorf ''failed to upload to Telegram: %w'' [ArgW e])) \<and>
      filter is_create (trace (snd (processCurrentPlayingSong cd tk bot_token chat_id upload w)))
        = filter is_create (trace w) \<and>
      files (snd (processCurrentPlayingSong cd tk bot_token chat_id upload w)) dataFile
        = files w1 dataFile"
    by (intro impI, rule acquire_U_no_thumbnail)
  show "(\<forall>tk' \<in> set ticks. plays_without_thumbnail cd song tk') \<and>
    files w (audioFile @ ''.jpg'') = None \<and> files w (audioFile @ ''.webp'') = None \<and>
    audioFile \<notin> noperm w \<and>
    fst (loadData cd dataFile w) = Inr dataMap \<and> \<not> lookup dataMap (songKey song) \<longrightarrow>
      length (filter is_acquisition
        (trace (main_loop_U cd bot_token chat_id ''true'' ticks w))) =
        length (filter is_acquisition (trace w)) + length ticks \<and>
      length (filter is_publish
        (trace (main_loop_U cd bot_token chat_id ''true'' ticks w))) =
        length (filter is_publish (trace w)) + length ticks \<and>
      filter is_create (trace (main_loop_U cd bot_token chat_id ''true'' ticks w)) =
        filter is_create (trace w) \<and>
      files (main_loop_U cd bot_token chat_id ''true'' ticks w) dataFile = files w dataFile"
    by (intro impI, elim conjE, rule stuck_loop)
qed

text \<open>
  The song of the example on the tick where the downloader writes no thumbnail: one call of
  \<open>sendAudio\<close>, one cycle, and three ticks of the loop, each from an empty directory.
\<close>

theorem missing_thumbnail_never_succeeds_witness:
  "readable world_audio ''audio.mp3'' \<and>
   fst (sendAudio_U tick_nothumb ''123:abc'' ''42'' ''audio.mp3'' ''Song A'' ''Artist X'' []
          world_audio) = Some (PathError ''remove'' [] ENOENT) \<and>
   fst (acquire_U codec0 tick_nothumb ''true'' world0) =
     Proceed (song0, ''Artist X'', Map.empty, []) \<and>
   fst (processCurrentPlayingSong codec0 tick_nothumb ''123:abc'' ''42'' ''true'' world0) =
     Some (Errorf ''failed to upload to Telegram: %w'' [ArgW (PathError ''remove'' [] ENOENT)]) \<and>
   plays_without_thumbnail codec0 song0 tick_nothumb \<and>
   length (filter is_acquisition
     (trace (main_loop_U codec0 ''123:abc'' ''42'' ''true''
        [tick_nothumb, tick_nothumb, tick_nothumb] world0))) = 3 \<and>
   length (filter is_publish
     (trace (main_loop_U codec0 ''123:abc'' ''42'' ''true''
        [tick_nothumb, tick_nothumb, tick_nothumb] world0))) = 3 \<and>
   filter is_create
     (trace (main_loop_U codec0 ''123:abc'' ''42'' ''true''
        [tick_nothumb, tick_nothumb, tick_nothumb] world0)) = [] \<and>
   files (main_loop_U codec0 ''123:abc'' ''42'' ''true''
        [tick_nothumb, tick_nothumb, tick_nothumb] world0) dataFile = None"
proof -
  let ?ticks = "[tick_nothumb, tick_nothumb, tick_nothumb]"
  let ?u1 = "snd (acquire_U codec0 tick_nothumb ''true'' world0)"
  have tk: "tokenHTTP tick_nothumb = Response 200 token_body"
    "playingHTTP tick_nothumb = Response 200 playing_body"
    "telegramHTTP tick_nothumb = Response 200 sent_body"
    "ytdlp tick_nothumb = (\<lambda>args. (None, [''audio.mp3'' \<mapsto> ''ID3'']))"
    by (simp_all add: tick_nothumb_def tick_ok_def)
  have w0: "files world0 = Map.empty" "noperm world0 = {}" "trace world0 = []"
    by (simp_all add: world0_def)
  have r: "readable world_audio ''audio.mp3''"
    by (simp add: readable_def world_audio_def)
  note T = missing_thumbnail_never_succeeds [where tk = tick_nothumb
      and bot_token = "''123:abc''" and chat_id = "''42''" and cd = codec0
      and upload = "''true''" and song = song0 and artists = "''Artist X''"
      and dataMap = Map.empty and ticks = ?ticks]
  have c2: "fst (sendAudio_U tick_nothumb ''123:abc'' ''42'' ''audio.mp3'' ''Song A''
      ''Artist X'' [] world_audio) = Some (PathError ''remove'' [] ENOENT)"
    using T [where w = world_audio and filePath = "''audio.mp3''" and respBody = sent_body
        and title = "''Song A''" and performer = "''Artist X''" and ?w1.0 = ?u1,
        THEN conjunct2, THEN conjunct1] r tk(3)
    by simp
  have st: "plays_without_thumbnail codec0 song0 tick_nothumb"
    by (simp add: plays_without_thumbnail_def tk codec0_def song0_def audioFile_def
        dataFile_def getArtists_def)
  have l: "fst (loadData codec0 dataFile world0) = Inr Map.empty"
    by (simp add: loadData_def os_Open_def w0 split_beta)
  have "fst (getCurrentPlaying_U codec0 tick_nothumb world0) = Inr song0"
    by (rule example_getCurrentPlaying_U [OF tk(1,2)])
  then have c3: "fst (acquire_U codec0 tick_nothumb ''true'' world0) =
      Proceed (song0, ''Artist X'', Map.empty, [])"
    using tk(4)
    by (simp add: acquire_U_def split_beta downloadFromYouTube_U_def Let_def loadData_def
        os_Open_def dataFile_def lookup_def getThumbnail_U_def audioFile_def os_Stat_def
        song0_def getArtists_def w0)
  then have ua: "acquire_U codec0 tick_nothumb ''true'' world0 =
      (Proceed (song0, ''Artist X'', Map.empty, []), ?u1)"
    by (rule pairI)
  have c4: "fst (processCurrentPlayingSong codec0 tick_nothumb ''123:abc'' ''42'' ''true''
      world0) =
      Some (Errorf ''failed to upload to Telegram: %w'' [ArgW (PathError ''remove'' [] ENOENT)])"
    using stuck_cycle(1) [OF st, of world0 Map.empty "''123:abc''" "''42''"] l
    by (simp add: w0 lookup_def)
  note L = T [where w = world0 and ?w1.0 = ?u1 and filePath = "''audio.mp3''"
      and respBody = sent_body and title = "''Song A''" and performer = "''Artist X''",
      THEN conjunct2, THEN conjunct2, THEN conjunct2, rule_format]
  have pre: "(\<forall>tk' \<in> set ?ticks. plays_without_thumbnail codec0 song0 tk') \<and>
    files world0 (audioFile @ ''.jpg'') = None \<and> files world0 (audioFile @ ''.webp'') = None \<and>
    audioFile \<notin> noperm world0 \<and>
    fst (loadData codec0 dataFile world0) = Inr Map.empty \<and>
    \<not> lookup Map.empty (songKey song0)"
    using st l by (simp add: w0 lookup_def)
  from L [OF pre] have c5:
    "length (filter is_acquisition
       (trace (main_loop_U codec0 ''123:abc'' ''42'' ''true'' ?ticks world0))) = 3"
    "length (filter is_publish
       (trace (main_loop_U codec0 ''123:abc'' ''42'' ''true'' ?ticks world0))) = 3"
    "filter is_create
       (trace (main_loop_U codec0 ''123:abc'' ''42'' ''true'' ?ticks world0)) = []"
    "files (main_loop_U codec0 ''123:abc'' ''42'' ''true'' ?ticks world0) dataFile = None"
    by (simp_all add: w0 del: main_loop_U.simps)
  from r c2 c3 c4 st c5 show ?thesis
    by (simp del: main_loop_U.simps)
qed

end
